theory Spec2Isabelle
  imports Complex_Main "HOL-Library.Multiset" "HOL-Library.Product_Lexorder"
begin

section \<open>Data model of the insight engine (services/aiService.js)\<close>

text \<open>
  JavaScript numbers are modelled as exact reals: the rounding error of IEEE doubles is
  not part of this development, and every division below is guarded as in the source or
  by a hypothesis on its divisor. Instants (JavaScript \<open>Date\<close>) are milliseconds since
  the epoch. ObjectIds are the strings their \<open>toString()\<close> gives.
\<close>

type_synonym objectId = string
type_synonym date = int

datatype error = StoreError | TypeError

text \<open>config/constants.js: \<open>NUDGE_TYPES\<close> and \<open>NUDGE_PRIORITY\<close>.\<close>

datatype nudge_type =
  WEEKEND_SPENDING | BUDGET_OVERAGE | SPENDING_TREND | STREAK_CELEBRATION
  | CATEGORY_PATTERN | SAVINGS_MILESTONE

datatype nudge_priority = HIGH | MEDIUM | LOW

datatype jsval = Num real | Str string | Bool bool

text \<open>
  A nudge object. Its \<open>id\<close> is always the template string \<open>`${prefix}_${Date.now()}`\<close>;
  the record keeps the two parts of the template, \<open>id_prefix\<close> and \<open>id_stamp\<close>, and
  \<open>nudgeId\<close> below puts the string together. The display texts (\<open>title\<close>,
  \<open>message\<close>, \<open>promptTemplate\<close>) are not modelled. \<open>metadata\<close> is the object literal
  as a list of its keys and values, in the order of the source.
\<close>

record nudge =
  id_prefix :: string
  id_stamp :: nat
  ntype :: nudge_type
  priority :: nudge_priority
  actionable :: bool
  metadata :: "(string \<times> jsval) list"

text \<open>
  An expense as \<open>getUserExpenses\<close> returns it. The query ends with
  \<open>.populate('categoryId', 'name color')\<close>, so the field \<open>categoryId\<close> no longer holds
  the id: it holds the category document cut down to \<open>_id\<close>, \<open>name\<close> and \<open>color\<close>, or
  null (\<open>None\<close>) when no category document has that id.
\<close>

record populatedCategory =
  pop_id :: objectId
  pop_name :: string
  pop_color :: string

record expense =
  amount :: real
  date :: date
  categoryId :: "populatedCategory option"

text \<open>models/Category.js; \<open>monthlyBudget\<close> is \<open>None\<close> when the field is absent.\<close>

record category =
  cat_id :: objectId
  cat_userId :: objectId
  cat_name :: string
  monthlyBudget :: "real option"
  cat_isActive :: bool

record streak =
  current :: int
  longest :: int
  lastActiveDate :: "date option"

record user =
  user_streak :: streak

text \<open>
  Everything the service reads from outside itself: the wall clock, the time zone and the
  answers of the document store. \<open>dateNow w k\<close> is what the \<open>k\<close>-th call of
  \<open>Date.now()\<close> of a run returns; the functions that build nudges thread the number of
  calls made so far. The time zone is a fixed offset (no daylight-saving change inside
  the data). The values that moment.js derives from the current instant are fields of
  their own. A query of the store either rejects (\<open>Inl\<close>) or answers; an aggregation
  pipeline with a \<open>$group\<close> stage answers with no group (\<open>None\<close>) or with the total.
  \<open>documentToString\<close> is the \<open>toString()\<close> that the document library gives a populated
  document (the text that inspecting it prints). \<open>firstRejected\<close> says which of the
  promises that reject inside one \<open>Promise.all\<close> rejects first in time: the index, in
  source order, among their errors.
\<close>

record world =
  utcOffset :: int
  dateNow :: "nat \<Rightarrow> nat"
  startOfMonth :: date
  endOfMonth :: date
  remainingDaysOfMonth :: int
  defaultStart :: date
  defaultEnd :: date
  categoryDocs :: "category list"
  categoryFind :: "objectId \<Rightarrow> error option"
  expenseFind :: "objectId \<Rightarrow> date \<Rightarrow> date \<Rightarrow> error + expense list"
  userFindById :: "objectId \<Rightarrow> error + user option"
  aggregateTotal :: "objectId \<Rightarrow> date \<Rightarrow> date \<Rightarrow> error + real option"
  aggregateCategory :: "objectId \<Rightarrow> objectId \<Rightarrow> date \<Rightarrow> date \<Rightarrow> error + real option"
  documentToString :: "populatedCategory \<Rightarrow> string"
  firstRejected :: "error list \<Rightarrow> nat"

section \<open>Library functions\<close>

text \<open>
  \<open>Promise.all\<close> rejects with the error of the promise that rejects first.
  \<open>rejection r\<close> lists the error of a rejected promise. \<open>pickRejection w e es\<close> takes,
  from the errors of the rejected promises of one \<open>Promise.all\<close> (\<open>e\<close> the first of them
  in source order, \<open>es\<close> the later ones), the one that came first in time.
\<close>

definition rejection :: "error + 'a \<Rightarrow> error list" where
  "rejection r = (case r of Inl e \<Rightarrow> [e] | Inr x \<Rightarrow> [])"

definition pickRejection :: "world \<Rightarrow> error \<Rightarrow> error list \<Rightarrow> error" where
  "pickRejection w e es = (e # es) ! (firstRejected w (e # es) mod Suc (length es))"

text \<open>\<open>parseFloat(x.toFixed(d))\<close>: the nearest multiple of \<open>10^-d\<close>, ties away from zero.\<close>

definition toFixed :: "nat \<Rightarrow> real \<Rightarrow> real" where
  "toFixed d x =
     (if x < 0 then - (of_int \<lfloor>- x * 10 ^ d + 1 / 2\<rfloor> / 10 ^ d)
      else of_int \<lfloor>x * 10 ^ d + 1 / 2\<rfloor> / 10 ^ d)"

text \<open>\<open>String(n)\<close> of a natural number, as a template literal prints \<open>Date.now()\<close>.\<close>

definition digitChar :: "nat \<Rightarrow> char" where
  "digitChar d = char_of (48 + d)"

fun showNat :: "nat \<Rightarrow> string" where
  "showNat n = (if n < 10 then [digitChar n] else showNat (n div 10) @ [digitChar (n mod 10)])"

declare showNat.simps [simp del]

text \<open>
  \<open>parseInt(s)\<close> on a string without sign or leading blanks: the value of the longest
  prefix of decimal digits, \<open>None\<close> (NaN) when there is none.
\<close>

definition isDigit :: "char \<Rightarrow> bool" where
  "isDigit c = (48 \<le> (of_char c :: nat) \<and> (of_char c :: nat) \<le> 57)"

definition digitVal :: "char \<Rightarrow> nat" where
  "digitVal c = of_char c - 48"

definition parseInt :: "string \<Rightarrow> nat option" where
  "parseInt s =
     (let ds = takeWhile isDigit s
      in if ds = [] then None else Some (foldl (\<lambda>acc c. 10 * acc + digitVal c) 0 ds))"

text \<open>\<open>s.split(c)\<close> for a separator of one character.\<close>

fun splitOn :: "char \<Rightarrow> string \<Rightarrow> string list" where
  "splitOn c [] = [[]]"
| "splitOn c (x # xs) =
     (if x = c then [] # splitOn c xs
      else (case splitOn c xs of [] \<Rightarrow> [[x]] | s # ss \<Rightarrow> (x # s) # ss))"

definition msPerDay :: int where
  "msPerDay = 86400000"

text \<open>\<open>moment(d).day()\<close>: 0 is Sunday, 6 is Saturday; 1 January 1970 was a Thursday.\<close>

definition moment_day :: "world \<Rightarrow> date \<Rightarrow> int" where
  "moment_day w d = ((d + utcOffset w) div msPerDay + 4) mod 7"

text \<open>\<open>moment(a).diff(moment(b), 'days')\<close> truncates towards zero.\<close>

definition moment_diff_days :: "date \<Rightarrow> date \<Rightarrow> int" where
  "moment_diff_days a b =
     (if a - b < 0 then - ((b - a) div msPerDay) else (a - b) div msPerDay)"

definition moment_subtract_days :: "date \<Rightarrow> int \<Rightarrow> date" where
  "moment_subtract_days d n = d - n * msPerDay"

section \<open>Helper methods\<close>

definition getUserExpenses :: "world \<Rightarrow> objectId \<Rightarrow> date \<Rightarrow> date \<Rightarrow> error + expense list" where
  "getUserExpenses w userId startDate endDate = expenseFind w userId startDate endDate"

text \<open>\<open>Category.find({ userId, isActive: true })\<close>\<close>

definition getUserCategories :: "world \<Rightarrow> objectId \<Rightarrow> error + category list" where
  "getUserCategories w userId =
     (case categoryFind w userId of
        Some e \<Rightarrow> Inl e
      | None \<Rightarrow> Inr (filter (\<lambda>c. cat_userId c = userId \<and> cat_isActive c) (categoryDocs w)))"

definition getUserInfo :: "world \<Rightarrow> objectId \<Rightarrow> error + user option" where
  "getUserInfo w userId = userFindById w userId"

text \<open>\<open>result[0]?.total || 0\<close>\<close>

definition totalOrZero :: "real option \<Rightarrow> real" where
  "totalOrZero r = (case r of None \<Rightarrow> 0 | Some t \<Rightarrow> t)"

definition getTotalSpending :: "world \<Rightarrow> objectId \<Rightarrow> date \<Rightarrow> date \<Rightarrow> error + real" where
  "getTotalSpending w userId startDate endDate =
     (case aggregateTotal w userId startDate endDate of
        Inl e \<Rightarrow> Inl e
      | Inr r \<Rightarrow> Inr (totalOrZero r))"

definition getCategorySpending :: "world \<Rightarrow> objectId \<Rightarrow> objectId \<Rightarrow> date \<Rightarrow> date \<Rightarrow> error + real" where
  "getCategorySpending w userId categoryId' startDate endDate =
     (case aggregateCategory w userId categoryId' startDate endDate of
        Inl e \<Rightarrow> Inl e
      | Inr r \<Rightarrow> Inr (totalOrZero r))"

definition getCategorySpendingThisMonth :: "world \<Rightarrow> objectId \<Rightarrow> objectId \<Rightarrow> error + real" where
  "getCategorySpendingThisMonth w userId categoryId' =
     getCategorySpending w userId categoryId' (startOfMonth w) (endOfMonth w)"

section \<open>Rule evaluators\<close>

subsection \<open>detectWeekendSpending\<close>

definition sumAmounts :: "expense list \<Rightarrow> real" where
  "sumAmounts es = foldl (\<lambda>sum e. sum + amount e) 0 es"

definition isWeekend :: "world \<Rightarrow> expense \<Rightarrow> bool" where
  "isWeekend w e = (moment_day w (date e) = 0 \<or> moment_day w (date e) = 6)"

definition isWeekday :: "world \<Rightarrow> expense \<Rightarrow> bool" where
  "isWeekday w e = (moment_day w (date e) \<ge> 1 \<and> moment_day w (date e) \<le> 5)"

definition weekendNudge :: "nat \<Rightarrow> real \<Rightarrow> real \<Rightarrow> real \<Rightarrow> nudge" where
  "weekendNudge now ratio weekendAvg weekdayAvg =
     \<lparr> id_prefix = ''weekend_spending'',
       id_stamp = now,
       ntype = WEEKEND_SPENDING,
       priority = (if ratio > 2.5 then HIGH else MEDIUM),
       actionable = True,
       metadata = [(''ratio'', Num (toFixed 2 ratio)),
                   (''weekendAvg'', Num (toFixed 2 weekendAvg)),
                   (''weekdayAvg'', Num (toFixed 2 weekdayAvg))] \<rparr>"

definition detectWeekendSpending ::
  "world \<Rightarrow> nat \<Rightarrow> objectId \<Rightarrow> expense list \<Rightarrow> nudge option \<times> nat" where
  "detectWeekendSpending w k userId expenses =
     (let weekendExpenses = filter (isWeekend w) expenses;
          weekdayExpenses = filter (isWeekday w) expenses
      in if length weekendExpenses = 0 \<or> length weekdayExpenses = 0 then (None, k)
         else
           let weekendAvg = sumAmounts weekendExpenses / real (length weekendExpenses);
               weekdayAvg = sumAmounts weekdayExpenses / real (length weekdayExpenses);
               ratio = weekendAvg / weekdayAvg
           in if ratio > 1.8
              then (Some (weekendNudge (dateNow w k) ratio weekendAvg weekdayAvg), Suc k)
              else (None, k))"

subsection \<open>detectBudgetOverspend\<close>

definition overageNudge :: "nat \<Rightarrow> category \<Rightarrow> real \<Rightarrow> real \<Rightarrow> real \<Rightarrow> nudge" where
  "overageNudge now c budget spentThisMonth percentage =
     \<lparr> id_prefix = ''budget_overage_'' @ cat_id c,
       id_stamp = now,
       ntype = BUDGET_OVERAGE,
       priority = HIGH,
       actionable = True,
       metadata = [(''categoryId'', Str (cat_id c)),
                   (''categoryName'', Str (cat_name c)),
                   (''budget'', Num budget),
                   (''spent'', Num spentThisMonth),
                   (''percentage'', Num (toFixed 1 percentage))] \<rparr>"

definition warningNudge :: "nat \<Rightarrow> category \<Rightarrow> real \<Rightarrow> real \<Rightarrow> real \<Rightarrow> int \<Rightarrow> nudge" where
  "warningNudge now c budget spentThisMonth percentage remainingDays =
     \<lparr> id_prefix = ''budget_warning_'' @ cat_id c,
       id_stamp = now,
       ntype = BUDGET_OVERAGE,
       priority = MEDIUM,
       actionable = True,
       metadata = [(''categoryId'', Str (cat_id c)),
                   (''categoryName'', Str (cat_name c)),
                   (''budget'', Num budget),
                   (''spent'', Num spentThisMonth),
                   (''percentage'', Num (toFixed 1 percentage)),
                   (''remainingDays'', Num (of_int remainingDays))] \<rparr>"

text \<open>
  The \<open>for\<close> loop over \<open>categories\<close>, with the local array \<open>nudges\<close> as accumulator.
  \<open>!category.monthlyBudget || category.monthlyBudget <= 0\<close> skips an absent, zero or
  negative budget. A rejected query leaves the loop with the error.
\<close>

fun budgetLoop ::
  "world \<Rightarrow> objectId \<Rightarrow> category list \<Rightarrow> nudge list \<Rightarrow> nat \<Rightarrow> error + (nudge list \<times> nat)" where
  "budgetLoop w userId [] nudges k = Inr (nudges, k)"
| "budgetLoop w userId (c # cs) nudges k =
     (case monthlyBudget c of
        None \<Rightarrow> budgetLoop w userId cs nudges k
      | Some budget \<Rightarrow>
          if budget \<le> 0 then budgetLoop w userId cs nudges k
          else
            (case getCategorySpendingThisMonth w userId (cat_id c) of
               Inl e \<Rightarrow> Inl e
             | Inr spentThisMonth \<Rightarrow>
                 let percentage = (spentThisMonth / budget) * 100
                 in if percentage \<ge> 100
                    then budgetLoop w userId cs
                           (nudges @ [overageNudge (dateNow w k) c budget spentThisMonth percentage])
                           (Suc k)
                    else if percentage \<ge> 80
                    then budgetLoop w userId cs
                           (nudges @ [warningNudge (dateNow w k) c budget spentThisMonth percentage
                                        (remainingDaysOfMonth w)])
                           (Suc k)
                    else budgetLoop w userId cs nudges k))"

definition detectBudgetOverspend ::
  "world \<Rightarrow> nat \<Rightarrow> objectId \<Rightarrow> category list \<Rightarrow> date \<Rightarrow> date \<Rightarrow> error + (nudge list \<times> nat)" where
  "detectBudgetOverspend w k userId categories startDate endDate =
     budgetLoop w userId categories [] k"

subsection \<open>analyzeSpendingTrendsForNudge\<close>

definition previousPeriodStart :: "date \<Rightarrow> date \<Rightarrow> date" where
  "previousPeriodStart startDate endDate =
     moment_subtract_days startDate (moment_diff_days endDate startDate)"

definition previousPeriodEnd :: "date \<Rightarrow> date" where
  "previousPeriodEnd startDate = moment_subtract_days startDate 1"

definition trendMetadata :: "real \<Rightarrow> real \<Rightarrow> real \<Rightarrow> (string \<times> jsval) list" where
  "trendMetadata currentPeriodTotal previousPeriodTotal changePercentage =
     [(''currentPeriodTotal'', Num (toFixed 2 currentPeriodTotal)),
      (''previousPeriodTotal'', Num (toFixed 2 previousPeriodTotal)),
      (''changePercentage'', Num (toFixed 1 changePercentage))]"

definition increaseNudge :: "nat \<Rightarrow> real \<Rightarrow> real \<Rightarrow> real \<Rightarrow> nudge" where
  "increaseNudge now currentPeriodTotal previousPeriodTotal changePercentage =
     \<lparr> id_prefix = ''spending_increase'',
       id_stamp = now,
       ntype = SPENDING_TREND,
       priority = MEDIUM,
       actionable = True,
       metadata = trendMetadata currentPeriodTotal previousPeriodTotal changePercentage \<rparr>"

definition decreaseNudge :: "nat \<Rightarrow> real \<Rightarrow> real \<Rightarrow> real \<Rightarrow> nudge" where
  "decreaseNudge now currentPeriodTotal previousPeriodTotal changePercentage =
     \<lparr> id_prefix = ''spending_decrease'',
       id_stamp = now,
       ntype = SPENDING_TREND,
       priority = LOW,
       actionable = False,
       metadata = trendMetadata currentPeriodTotal previousPeriodTotal changePercentage \<rparr>"

text \<open>
  \<open>Promise.all\<close> starts both queries; when one of them rejects, the function rejects
  with the error that came first.
\<close>

definition analyzeSpendingTrendsForNudge ::
  "world \<Rightarrow> nat \<Rightarrow> objectId \<Rightarrow> date \<Rightarrow> date \<Rightarrow> error + (nudge option \<times> nat)" where
  "analyzeSpendingTrendsForNudge w k userId startDate endDate =
     (let current = getTotalSpending w userId startDate endDate;
          previous = getTotalSpending w userId (previousPeriodStart startDate endDate)
                       (previousPeriodEnd startDate)
      in
      case current of
        Inl e \<Rightarrow> Inl (pickRejection w e (rejection previous))
      | Inr currentPeriodTotal \<Rightarrow>
     (case previous of
        Inl e \<Rightarrow> Inl e
      | Inr previousPeriodTotal \<Rightarrow>
          if previousPeriodTotal = 0 then Inr (None, k)
          else
            let changePercentage =
                  ((currentPeriodTotal - previousPeriodTotal) / previousPeriodTotal) * 100
            in if \<bar>changePercentage\<bar> < 15 then Inr (None, k)
               else if changePercentage > 15
               then Inr (Some (increaseNudge (dateNow w k) currentPeriodTotal
                                 previousPeriodTotal changePercentage), Suc k)
               else if changePercentage < - 10
               then Inr (Some (decreaseNudge (dateNow w k) currentPeriodTotal
                                 previousPeriodTotal changePercentage), Suc k)
               else Inr (None, k)))"

subsection \<open>generateMotivationalNudges\<close>

definition streak7Nudge :: "nat \<Rightarrow> int \<Rightarrow> nudge" where
  "streak7Nudge now cur =
     \<lparr> id_prefix = ''streak_7'',
       id_stamp = now,
       ntype = STREAK_CELEBRATION,
       priority = LOW,
       actionable = False,
       metadata = [(''streakDays'', Num (of_int cur))] \<rparr>"

definition personalBestNudge :: "nat \<Rightarrow> int \<Rightarrow> nudge" where
  "personalBestNudge now cur =
     \<lparr> id_prefix = ''personal_best'',
       id_stamp = now,
       ntype = STREAK_CELEBRATION,
       priority = LOW,
       actionable = False,
       metadata = [(''streakDays'', Num (of_int cur)), (''personalBest'', Bool True)] \<rparr>"

text \<open>Reading \<open>user.streak\<close> of a null user throws a TypeError.\<close>

definition generateMotivationalNudges ::
  "world \<Rightarrow> nat \<Rightarrow> user option \<Rightarrow> error + (nudge list \<times> nat)" where
  "generateMotivationalNudges w k usr =
     (case usr of
        None \<Rightarrow> Inl TypeError
      | Some u \<Rightarrow>
          let cur = current (user_streak u);
              lng = longest (user_streak u);
              (nudges1, k1) =
                 (if cur = 7 then ([streak7Nudge (dateNow w k) cur], Suc k) else ([], k));
              (nudges2, k2) =
                 (if cur = lng \<and> cur > lng - 1 \<and> cur > 0
                  then (nudges1 @ [personalBestNudge (dateNow w k1) cur], Suc k1)
                  else (nudges1, k1))
          in Inr (nudges2, k2))"

subsection \<open>detectCategoryPatterns\<close>

text \<open>
  \<open>categoryExpenses\<close> is an object keyed by the string
  \<open>expense.categoryId.toString()\<close>; \<open>Object.entries\<close> lists its keys in the order of
  their first insertion (neither the text of a document nor an ObjectId string is an
  array index). \<open>groupPush\<close> is \<open>categoryExpenses[categoryId].push(expense)\<close>,
  creating the entry when the key is new.
\<close>

fun groupPush ::
  "(string \<times> expense list) list \<Rightarrow> string \<Rightarrow> expense \<Rightarrow> (string \<times> expense list) list" where
  "groupPush [] cid e = [(cid, [e])]"
| "groupPush ((cid', es) # g) cid e =
     (if cid' = cid then (cid', es @ [e]) # g else (cid', es) # groupPush g cid e)"

text \<open>
  \<open>expense.categoryId.toString()\<close>: the populated document's \<open>toString()\<close>; on a null
  field the call throws (\<open>None\<close>).
\<close>

definition categoryKey :: "world \<Rightarrow> expense \<Rightarrow> string option" where
  "categoryKey w e = map_option (documentToString w) (categoryId e)"

text \<open>The \<open>forEach\<close> that fills \<open>categoryExpenses\<close>.\<close>

fun groupExpenses ::
  "world \<Rightarrow> expense list \<Rightarrow> (string \<times> expense list) list
     \<Rightarrow> error + (string \<times> expense list) list" where
  "groupExpenses w [] g = Inr g"
| "groupExpenses w (e # es) g =
     (case categoryKey w e of
        None \<Rightarrow> Inl TypeError
      | Some cid \<Rightarrow> groupExpenses w es (groupPush g cid e))"

definition smallPurchasesNudge :: "nat \<Rightarrow> string \<Rightarrow> category \<Rightarrow> nat \<Rightarrow> real \<Rightarrow> nudge" where
  "smallPurchasesNudge now cid c cnt totalSmall =
     \<lparr> id_prefix = ''small_purchases_'' @ cid,
       id_stamp = now,
       ntype = CATEGORY_PATTERN,
       priority = MEDIUM,
       actionable = True,
       metadata = [(''categoryId'', Str cid),
                   (''categoryName'', Str (cat_name c)),
                   (''count'', Num (real cnt)),
                   (''totalAmount'', Num (toFixed 2 totalSmall))] \<rparr>"

definition spikeNudge :: "nat \<Rightarrow> string \<Rightarrow> category \<Rightarrow> real \<Rightarrow> real \<Rightarrow> nudge" where
  "spikeNudge now cid c largest median =
     \<lparr> id_prefix = ''unusual_spike_'' @ cid,
       id_stamp = now,
       ntype = CATEGORY_PATTERN,
       priority = MEDIUM,
       actionable = True,
       metadata = [(''categoryId'', Str cid),
                   (''categoryName'', Str (cat_name c)),
                   (''largestExpense'', Num (toFixed 2 largest)),
                   (''medianExpense'', Num (toFixed 2 median))] \<rparr>"

text \<open>\<open>amounts.sort((a, b) => b - a)\<close>\<close>

definition sortDescending :: "real list \<Rightarrow> real list" where
  "sortDescending xs = rev (sort xs)"

text \<open>The body of the loop over the entries, for an entry whose category was found.\<close>

definition smallPurchasesCheck ::
  "world \<Rightarrow> string \<Rightarrow> category \<Rightarrow> expense list \<Rightarrow> nudge list \<Rightarrow> nat \<Rightarrow> nudge list \<times> nat" where
  "smallPurchasesCheck w cid c categoryExpenseList nudges k =
     (let smallPurchases = filter (\<lambda>e. amount e < 200) categoryExpenseList
      in if length smallPurchases \<ge> 10
         then (nudges @ [smallPurchasesNudge (dateNow w k) cid c (length smallPurchases)
                           (sumAmounts smallPurchases)], Suc k)
         else (nudges, k))"

definition spikeCheck ::
  "world \<Rightarrow> string \<Rightarrow> category \<Rightarrow> expense list \<Rightarrow> nudge list \<Rightarrow> nat \<Rightarrow> nudge list \<times> nat" where
  "spikeCheck w cid c categoryExpenseList nudges k =
     (let amounts = sortDescending (map amount categoryExpenseList)
      in if length amounts \<ge> 3
         then
           let median = amounts ! (length amounts div 2);
               largest = amounts ! 0
           in if largest > median * 5
              then (nudges @ [spikeNudge (dateNow w k) cid c largest median], Suc k)
              else (nudges, k)
         else (nudges, k))"

fun patternLoop ::
  "world \<Rightarrow> category list \<Rightarrow> (string \<times> expense list) list \<Rightarrow> nudge list \<Rightarrow> nat
     \<Rightarrow> nudge list \<times> nat" where
  "patternLoop w categories [] nudges k = (nudges, k)"
| "patternLoop w categories ((cid, categoryExpenseList) # rest) nudges k =
     (case find (\<lambda>c. cat_id c = cid) categories of
        None \<Rightarrow> patternLoop w categories rest nudges k
      | Some c \<Rightarrow>
          (case smallPurchasesCheck w cid c categoryExpenseList nudges k of
             (nudges1, k1) \<Rightarrow>
          (case spikeCheck w cid c categoryExpenseList nudges1 k1 of
             (nudges2, k2) \<Rightarrow> patternLoop w categories rest nudges2 k2)))"

definition detectCategoryPatterns ::
  "world \<Rightarrow> nat \<Rightarrow> objectId \<Rightarrow> expense list \<Rightarrow> category list \<Rightarrow> error + (nudge list \<times> nat)" where
  "detectCategoryPatterns w k userId expenses categories =
     (case groupExpenses w expenses [] of
        Inl e \<Rightarrow> Inl e
      | Inr categoryExpenses \<Rightarrow> Inr (patternLoop w categories categoryExpenses [] k))"

subsection \<open>detectSavingsMilestones\<close>

definition detectSavingsMilestones :: "objectId \<Rightarrow> nudge list" where
  "detectSavingsMilestones userId = []"

section \<open>Prioritizer\<close>

definition priorityOrder :: "nudge_priority \<Rightarrow> int" where
  "priorityOrder p = (case p of HIGH \<Rightarrow> 1 | MEDIUM \<Rightarrow> 2 | LOW \<Rightarrow> 3)"

text \<open>The \<open>id\<close> string of a nudge.\<close>

definition nudgeId :: "nudge \<Rightarrow> string" where
  "nudgeId n = id_prefix n @ ''_'' @ showNat (id_stamp n)"

text \<open>
  The comparator passed to \<open>nudges.sort\<close>. The difference of two timestamps is NaN when
  one of them is NaN, and \<open>sort\<close> reads a comparator result of NaN as 0.
\<close>

definition compareNudges :: "nudge \<Rightarrow> nudge \<Rightarrow> int" where
  "compareNudges a b =
     (let priorityA = priorityOrder (priority a);
          priorityB = priorityOrder (priority b)
      in if priorityA \<noteq> priorityB then priorityA - priorityB
         else (case (parseInt (last (splitOn CHR ''_'' (nudgeId b))),
                     parseInt (last (splitOn CHR ''_'' (nudgeId a)))) of
                 (Some stampB, Some stampA) \<Rightarrow> int stampB - int stampA
               | _ \<Rightarrow> 0))"

text \<open>
  \<open>Array.prototype.sort\<close> with a comparator is a stable sort (ECMAScript 2019): an
  element moves in front of another one only when the comparator puts it strictly
  before. It is modelled as insertion sort.
\<close>

fun insertBy :: "('a \<Rightarrow> 'a \<Rightarrow> int) \<Rightarrow> 'a \<Rightarrow> 'a list \<Rightarrow> 'a list" where
  "insertBy cmp x [] = [x]"
| "insertBy cmp x (y # ys) = (if cmp x y \<le> 0 then x # y # ys else y # insertBy cmp x ys)"

definition arraySort :: "('a \<Rightarrow> 'a \<Rightarrow> int) \<Rightarrow> 'a list \<Rightarrow> 'a list" where
  "arraySort cmp xs = foldr (insertBy cmp) xs []"

definition prioritizeNudges :: "nudge list \<Rightarrow> nudge list" where
  "prioritizeNudges nudges = arraySort compareNudges nudges"

section \<open>Insight aggregator\<close>

record spendingPatterns =
  isIncreasing :: bool
  trend :: string
  changePercentage :: real
  currentPeriod :: real
  previousPeriod :: real

definition analyzeSpendingTrends ::
  "world \<Rightarrow> objectId \<Rightarrow> date \<Rightarrow> date \<Rightarrow> error + spendingPatterns" where
  "analyzeSpendingTrends w userId startDate endDate =
     (case getTotalSpending w userId startDate endDate of
        Inl e \<Rightarrow> Inl e
      | Inr currentPeriodTotal \<Rightarrow>
     (case getTotalSpending w userId (previousPeriodStart startDate endDate)
             (previousPeriodEnd startDate) of
        Inl e \<Rightarrow> Inl e
      | Inr previousPeriodTotal \<Rightarrow>
          let change = (if previousPeriodTotal > 0
                        then ((currentPeriodTotal - previousPeriodTotal) / previousPeriodTotal) * 100
                        else 0);
              trend' = (if previousPeriodTotal > 0
                        then (if change > 5 then ''up''
                              else if change < - 5 then ''down'' else ''stable'')
                        else ''stable'')
          in Inr \<lparr> isIncreasing = (trend' = ''up''),
                   trend = trend',
                   changePercentage = toFixed 1 change,
                   currentPeriod = toFixed 2 currentPeriodTotal,
                   previousPeriod = toFixed 2 previousPeriodTotal \<rparr>))"

record categoryAlert =
  alert_categoryId :: objectId
  alert_name :: string
  alert_spent :: real
  alert_budget :: real
  alert_percentage :: real
  overBudget :: bool

fun alertLoop ::
  "world \<Rightarrow> objectId \<Rightarrow> date \<Rightarrow> date \<Rightarrow> category list \<Rightarrow> categoryAlert list
     \<Rightarrow> error + categoryAlert list" where
  "alertLoop w userId startDate endDate [] categoryAlerts = Inr categoryAlerts"
| "alertLoop w userId startDate endDate (c # cs) categoryAlerts =
     (case monthlyBudget c of
        None \<Rightarrow> alertLoop w userId startDate endDate cs categoryAlerts
      | Some budget \<Rightarrow>
          if budget \<le> 0 then alertLoop w userId startDate endDate cs categoryAlerts
          else
            (case getCategorySpending w userId (cat_id c) startDate endDate of
               Inl e \<Rightarrow> Inl e
             | Inr spent \<Rightarrow>
                 let percentage = (spent / budget) * 100
                 in if percentage \<ge> 100
                    then alertLoop w userId startDate endDate cs
                           (categoryAlerts @
                              [\<lparr> alert_categoryId = cat_id c, alert_name = cat_name c,
                                  alert_spent = toFixed 2 spent, alert_budget = budget,
                                  alert_percentage = toFixed 1 percentage, overBudget = True \<rparr>])
                    else if percentage \<ge> 80
                    then alertLoop w userId startDate endDate cs
                           (categoryAlerts @
                              [\<lparr> alert_categoryId = cat_id c, alert_name = cat_name c,
                                  alert_spent = toFixed 2 spent, alert_budget = budget,
                                  alert_percentage = toFixed 1 percentage, overBudget = False \<rparr>])
                    else alertLoop w userId startDate endDate cs categoryAlerts))"

definition analyzeCategorySpending ::
  "world \<Rightarrow> objectId \<Rightarrow> category list \<Rightarrow> date \<Rightarrow> date \<Rightarrow> error + categoryAlert list" where
  "analyzeCategorySpending w userId categories startDate endDate =
     alertLoop w userId startDate endDate categories []"

section \<open>generateAllNudges and generateInsights\<close>

definition pushIf :: "nudge list \<Rightarrow> nudge option \<Rightarrow> nudge list" where
  "pushIf nudges n = (case n of None \<Rightarrow> nudges | Some x \<Rightarrow> nudges @ [x])"

text \<open>
  The body of the \<open>try\<close> pushes each evaluator's result onto \<open>nudges\<close>; the \<open>catch\<close>
  logs the error and falls through to \<open>return nudges\<close>, so an evaluator that throws
  leaves what was pushed before it.
\<close>

definition generateAllNudges ::
  "world \<Rightarrow> nat \<Rightarrow> objectId \<Rightarrow> expense list \<Rightarrow> category list \<Rightarrow> user option \<Rightarrow> date \<Rightarrow> date
     \<Rightarrow> nudge list" where
  "generateAllNudges w k userId expenses categories usr startDate endDate =
     (case detectWeekendSpending w k userId expenses of
        (weekendNudge', k1) \<Rightarrow>
     (let nudges1 = pushIf [] weekendNudge' in
      case detectBudgetOverspend w k1 userId categories startDate endDate of
        Inl e \<Rightarrow> nudges1
      | Inr (budgetNudges, k2) \<Rightarrow>
     (let nudges2 = nudges1 @ budgetNudges in
      case analyzeSpendingTrendsForNudge w k2 userId startDate endDate of
        Inl e \<Rightarrow> nudges2
      | Inr (trendNudge, k3) \<Rightarrow>
     (let nudges3 = pushIf nudges2 trendNudge in
      case generateMotivationalNudges w k3 usr of
        Inl e \<Rightarrow> nudges3
      | Inr (motivationNudges, k4) \<Rightarrow>
     (let nudges4 = nudges3 @ motivationNudges in
      case detectCategoryPatterns w k4 userId expenses categories of
        Inl e \<Rightarrow> nudges4
      | Inr (patternNudges, k5) \<Rightarrow>
     (let nudges5 = nudges4 @ patternNudges
      in nudges5 @ detectSavingsMilestones userId))))))"

record insights =
  spendingPatterns :: spendingPatterns
  categoryAlerts :: "categoryAlert list"
  streakInfo :: streak

record insightBundle =
  nudges :: "nudge list"
  insights :: insights
  period :: "date \<times> date"

text \<open>
  \<open>startDate\<close> and \<open>endDate\<close> are \<open>None\<close> for null. \<open>Promise.all\<close> of the three reads
  rejects when one of them rejects, with the error that came first among the reads that
  reject. The outer \<open>catch\<close> rethrows. Reading \<open>user.streak\<close> of a null user throws a
  TypeError.
\<close>

definition generateInsights ::
  "world \<Rightarrow> objectId \<Rightarrow> date option \<Rightarrow> date option \<Rightarrow> error + insightBundle" where
  "generateInsights w userId startDate0 endDate0 =
     (let startDate = (case startDate0 of None \<Rightarrow> defaultStart w | Some d \<Rightarrow> d);
          endDate = (case endDate0 of None \<Rightarrow> defaultEnd w | Some d \<Rightarrow> d)
      in
      case getUserExpenses w userId startDate endDate of
        Inl e \<Rightarrow>
          Inl (pickRejection w e
                 (rejection (getUserCategories w userId) @ rejection (getUserInfo w userId)))
      | Inr expenses \<Rightarrow>
     (case getUserCategories w userId of
        Inl e \<Rightarrow> Inl (pickRejection w e (rejection (getUserInfo w userId)))
      | Inr categories \<Rightarrow>
     (case getUserInfo w userId of
        Inl e \<Rightarrow> Inl e
      | Inr usr \<Rightarrow>
     (let nudges' = generateAllNudges w 0 userId expenses categories usr startDate endDate in
      case analyzeSpendingTrends w userId startDate endDate of
        Inl e \<Rightarrow> Inl e
      | Inr patterns \<Rightarrow>
     (case analyzeCategorySpending w userId categories startDate endDate of
        Inl e \<Rightarrow> Inl e
      | Inr alerts \<Rightarrow>
     (case usr of
        None \<Rightarrow> Inl TypeError
      | Some u \<Rightarrow>
          Inr \<lparr> nudges = take 5 (prioritizeNudges nudges'),
                insights = \<lparr> spendingPatterns = patterns,
                             categoryAlerts = alerts,
                             streakInfo = user_streak u \<rparr>,
                period = (startDate, endDate) \<rparr>))))))"

section \<open>Notions of the specification\<close>



text \<open>A category is budget-tracked when its monthly budget is present and positive.\<close>

definition budgetTracked :: "category \<Rightarrow> bool" where
  "budgetTracked c = (case monthlyBudget c of None \<Rightarrow> False | Some b \<Rightarrow> b > 0)"

text \<open>What identifies the rule that built a nudge, apart from its timestamp and numbers.\<close>

definition nudgeSummary :: "nudge \<Rightarrow> string \<times> nudge_type \<times> nudge_priority \<times> bool" where
  "nudgeSummary n = (id_prefix n, ntype n, priority n, actionable n)"


text \<open>The sort key that the comparator of \<open>prioritizeNudges\<close> induces.\<close>

definition nudgeKey :: "nudge \<Rightarrow> int \<times> int" where
  "nudgeKey n = (priorityOrder (priority n), - int (id_stamp n))"

text \<open>The five types that the rule evaluators put on the nudges they build.\<close>

definition builtType :: "nudge \<Rightarrow> bool" where
  "builtType n = (ntype n = WEEKEND_SPENDING \<or> ntype n = BUDGET_OVERAGE \<or> ntype n = SPENDING_TREND
      \<or> ntype n = STREAK_CELEBRATION \<or> ntype n = CATEGORY_PATTERN)"



section \<open>Example inputs\<close>

text \<open>
  14 November 2023, 22:13:20 UTC, in a store with no expenses and no categories; the
  user has a streak of 7 days, which is also the longest. Every call of \<open>Date.now()\<close>
  falls into the same millisecond.
\<close>

definition user77 :: user where
  "user77 = \<lparr> user_streak = \<lparr> current = 7, longest = 7, lastActiveDate = Some 1699920000000 \<rparr> \<rparr>"

definition user710 :: user where
  "user710 = \<lparr> user_streak = \<lparr> current = 7, longest = 10, lastActiveDate = None \<rparr> \<rparr>"

text \<open>
  The text of a populated category document, without its quotes and line breaks. It
  starts with an opening brace, as the text of every document does.
\<close>

definition inspectText :: "populatedCategory \<Rightarrow> string" where
  "inspectText d =
     ''{ _id: new ObjectId('' @ pop_id d @ ''), name: '' @ pop_name d
       @ '', color: '' @ pop_color d @ '' }''"

definition quietWorld :: world where
  "quietWorld =
     \<lparr> utcOffset = 0,
       dateNow = (\<lambda>k. 1700000000000),
       startOfMonth = 1698796800000,
       endOfMonth = 1701388799999,
       remainingDaysOfMonth = 16,
       defaultStart = 1697328000000,
       defaultEnd = 1700006399999,
       categoryDocs = [],
       categoryFind = (\<lambda>u. None),
       expenseFind = (\<lambda>u s e. Inr []),
       userFindById = (\<lambda>u. Inr (Some user77)),
       aggregateTotal = (\<lambda>u s e. Inr None),
       aggregateCategory = (\<lambda>u c s e. Inr None),
       documentToString = inspectText,
       firstRejected = (\<lambda>errs. 0) \<rparr>"

text \<open>The same, with 1200 spent in the window and 1000 in the period before it.\<close>

definition trendWorld :: world where
  "trendWorld =
     quietWorld \<lparr> aggregateTotal :=
       (\<lambda>u s e. if s = 1697328000000 then Inr (Some 1200) else Inr (Some 1000)) \<rparr>"

text \<open>
  A busier store for user \<open>u1\<close>: five category documents (one with a zero budget, one
  of another user, one inactive), three expenses in the zero-budget category, each
  with its populated category document (one on Saturday 11 November 2023, two on the
  following Monday and Tuesday), 5100 spent
  this month on Food and 2550 on Transport, and totals of 1200 and 1000. The clock
  advances by one millisecond per call of \<open>Date.now()\<close>.
\<close>

definition catFood :: category where
  "catFood = \<lparr> cat_id = ''c1'', cat_userId = ''u1'', cat_name = ''Food'',
               monthlyBudget = Some 5000, cat_isActive = True \<rparr>"

definition catTransport :: category where
  "catTransport = \<lparr> cat_id = ''c2'', cat_userId = ''u1'', cat_name = ''Transport'',
                    monthlyBudget = Some 3000, cat_isActive = True \<rparr>"

definition catGifts :: category where
  "catGifts = \<lparr> cat_id = ''c3'', cat_userId = ''u1'', cat_name = ''Gifts'',
                monthlyBudget = Some 0, cat_isActive = True \<rparr>"

definition catBills :: category where
  "catBills = \<lparr> cat_id = ''c4'', cat_userId = ''u2'', cat_name = ''Bills'',
                monthlyBudget = Some 8000, cat_isActive = True \<rparr>"

definition catOld :: category where
  "catOld = \<lparr> cat_id = ''c5'', cat_userId = ''u1'', cat_name = ''Old'',
              monthlyBudget = Some 2000, cat_isActive = False \<rparr>"

definition giftsPopulated :: populatedCategory where
  "giftsPopulated = \<lparr> pop_id = ''c3'', pop_name = ''Gifts'', pop_color = ''#96CEB4'' \<rparr>"

definition giftExpenses :: "expense list" where
  "giftExpenses =
     [\<lparr> amount = 1000, date = 1699700000000, categoryId = Some giftsPopulated \<rparr>,
      \<lparr> amount = 10, date = 1699833600000, categoryId = Some giftsPopulated \<rparr>,
      \<lparr> amount = 10, date = 1699920000000, categoryId = Some giftsPopulated \<rparr>]"

definition spentThisMonth :: "category \<Rightarrow> real" where
  "spentThisMonth c = (if cat_id c = ''c1'' then 5100 else if cat_id c = ''c2'' then 2550 else 0)"

definition busyWorld :: world where
  "busyWorld =
     \<lparr> utcOffset = 0,
       dateNow = (\<lambda>k. 1700000000000 + k),
       startOfMonth = 1698796800000,
       endOfMonth = 1701388799999,
       remainingDaysOfMonth = 16,
       defaultStart = 1697328000000,
       defaultEnd = 1700006399999,
       categoryDocs = [catFood, catTransport, catGifts, catBills, catOld],
       categoryFind = (\<lambda>u. None),
       expenseFind = (\<lambda>u s e. Inr giftExpenses),
       userFindById = (\<lambda>u. Inr (Some user77)),
       aggregateTotal =
         (\<lambda>u s e. if s = 1697328000000 then Inr (Some 1200) else Inr (Some 1000)),
       aggregateCategory =
         (\<lambda>u c s e. if c = ''c1'' then Inr (Some 5100)
                     else if c = ''c2'' then Inr (Some 2550) else Inr None),
       documentToString = inspectText,
       firstRejected = (\<lambda>errs. 0) \<rparr>"

text \<open>The same store when the query for this month's spending of a category is rejected.\<close>

definition failingWorld :: world where
  "failingWorld =
     busyWorld \<lparr> aggregateCategory :=
       (\<lambda>u c s e. if s = 1698796800000 then Inl StoreError else aggregateCategory busyWorld u c s e) \<rparr>"

section \<open>Properties\<close>

subsection \<open>Nudge ids\<close>

lemma digitChar_facts:
  assumes "d < 10"
  shows "isDigit (digitChar d) \<and> digitVal (digitChar d) = d \<and> digitChar d \<noteq> CHR ''_''
         \<and> CHR ''_'' \<noteq> digitChar d"
proof -
  have v: "(of_char (digitChar d) :: nat) = 48 + d"
    using assms by (simp add: digitChar_def)
  have ne: "digitChar d \<noteq> CHR ''_''"
  proof
    assume "digitChar d = CHR ''_''"
    then have "(of_char (digitChar d) :: nat) = of_char (CHR ''_'')" by simp
    with v have "48 + d = (95::nat)" by simp
    with assms show False by simp
  qed
  from ne have "CHR ''_'' \<noteq> digitChar d" by (rule not_sym)
  with ne v assms show ?thesis by (simp add: isDigit_def digitVal_def)
qed

lemma showNat_digits: "list_all isDigit (showNat n) \<and> showNat n \<noteq> [] \<and> CHR ''_'' \<notin> set (showNat n)"
proof (induction n rule: showNat.induct)
  case (1 n)
  show ?case
  proof (cases "n < 10")
    case True
    then show ?thesis using digitChar_facts[of n] by (simp add: showNat.simps[of n])
  next
    case False
    have "n mod 10 < 10" by simp
    with 1[OF False] False digitChar_facts[of "n mod 10"] show ?thesis
      by (simp add: showNat.simps[of n])
  qed
qed

lemma showNat_value: "foldl (\<lambda>acc c. 10 * acc + digitVal c) 0 (showNat n) = n"
proof (induction n rule: showNat.induct)
  case (1 n)
  show ?case
  proof (cases "n < 10")
    case True
    then show ?thesis using digitChar_facts[of n] by (simp add: showNat.simps[of n])
  next
    case False
    have "n mod 10 < 10" by simp
    with 1[OF False] False digitChar_facts[of "n mod 10"] show ?thesis
      by (simp add: showNat.simps[of n])
  qed
qed

lemma parseInt_showNat: "parseInt (showNat n) = Some n"
proof -
  have "\<forall>x\<in>set (showNat n). isDigit x"
    using showNat_digits[of n] by (simp add: list_all_iff)
  then have tw: "takeWhile isDigit (showNat n) = showNat n"
    by (rule takeWhile_eq_all_conv[THEN iffD2])
  have ne: "showNat n \<noteq> []" using showNat_digits[of n] by simp
  show ?thesis unfolding parseInt_def Let_def tw using ne by (simp add: showNat_value)
qed

lemma splitOn_nonempty: "splitOn c s \<noteq> []"
  by (induction s) (auto split: list.splits)

lemma splitOn_none: "c \<notin> set s \<Longrightarrow> splitOn c s = [s]"
  by (induction s) auto

lemma splitOn_length: "length (splitOn c s) = Suc (length (filter (\<lambda>x. x = c) s))"
  by (induction s) (auto split: list.splits)

lemma last_splitOn: "c \<notin> set ds \<Longrightarrow> last (splitOn c (p @ c # ds)) = ds"
proof (induction p)
  case Nil
  then show ?case by (simp add: splitOn_none)
next
  case (Cons x p)
  show ?case
  proof (cases "x = c")
    case True
    with Cons show ?thesis using splitOn_nonempty[of c "p @ c # ds"] by simp
  next
    case False
    have "length (splitOn c (p @ c # ds)) \<ge> 2"
      by (simp add: splitOn_length)
    then obtain s s' ss where "splitOn c (p @ c # ds) = s # s' # ss"
      by (cases "splitOn c (p @ c # ds)"; cases "tl (splitOn c (p @ c # ds))") auto
    with Cons False show ?thesis by simp
  qed
qed

lemma id_timestamp: "parseInt (last (splitOn CHR ''_'' (nudgeId n))) = Some (id_stamp n)"
proof -
  have "CHR ''_'' \<notin> set (showNat (id_stamp n))" using showNat_digits by simp
  then have "last (splitOn CHR ''_'' (id_prefix n @ CHR ''_'' # showNat (id_stamp n)))
      = showNat (id_stamp n)"
    by (rule last_splitOn)
  then show ?thesis by (simp add: nudgeId_def parseInt_showNat)
qed


subsection \<open>Spending-trend detector\<close>

text \<open>
  C3. Whenever the store answers both totals: with a previous total of 0 the detector
  emits nothing; otherwise, with \<open>change = (current - previous) / previous * 100\<close>, it
  emits nothing when \<open>\<bar>change\<bar> < 15\<close>; of the remainder, \<open>change > 15\<close> gives one
  nudge of the increase rule (type spending_trend, priority medium, actionable) and
  \<open>change < -10\<close> gives one nudge of the decrease rule (priority low, not actionable).
  Hence nothing is emitted exactly when the previous total is 0, \<open>\<bar>change\<bar> < 15\<close> or
  \<open>change = 15\<close>.
\<close>

theorem trend_nudge_detector:
  assumes cur: "getTotalSpending w userId startDate endDate = Inr currentTotal"
    and prev: "getTotalSpending w userId (previousPeriodStart startDate endDate)
                 (previousPeriodEnd startDate) = Inr previousTotal"
  shows "\<exists>r k'. analyzeSpendingTrendsForNudge w k userId startDate endDate = Inr (r, k') \<and>
     (let change = (currentTotal - previousTotal) / previousTotal * 100
      in r = (if previousTotal = 0 then None
              else if \<bar>change\<bar> < 15 then None
              else if change > 15
              then Some (increaseNudge (dateNow w k) currentTotal previousTotal change)
              else if change < - 10
              then Some (decreaseNudge (dateNow w k) currentTotal previousTotal change)
              else None) \<and>
         (r = None) = (previousTotal = 0 \<or> \<bar>change\<bar> < 15 \<or> change = 15) \<and>
         (r = Some (increaseNudge (dateNow w k) currentTotal previousTotal change))
            = (previousTotal \<noteq> 0 \<and> change > 15) \<and>
         (r = Some (decreaseNudge (dateNow w k) currentTotal previousTotal change))
            = (previousTotal \<noteq> 0 \<and> change \<le> - 15) \<and>
         k' = (if r = None then k else Suc k)) \<and>
     nudgeSummary (increaseNudge t a b c) = (''spending_increase'', SPENDING_TREND, MEDIUM, True) \<and>
     nudgeSummary (decreaseNudge t a b c) = (''spending_decrease'', SPENDING_TREND, LOW, False)"
proof -
  define change where "change = (currentTotal - previousTotal) / previousTotal * 100"
  have diff: "increaseNudge t1 a1 b1 c1 \<noteq> decreaseNudge t2 a2 b2 c2" for t1 a1 b1 c1 t2 a2 b2 c2
    by (simp add: increaseNudge_def decreaseNudge_def)
  have run: "analyzeSpendingTrendsForNudge w k userId startDate endDate =
      (if previousTotal = 0 then Inr (None, k)
       else if \<bar>change\<bar> < 15 then Inr (None, k)
       else if change > 15
       then Inr (Some (increaseNudge (dateNow w k) currentTotal previousTotal change), Suc k)
       else if change < - 10
       then Inr (Some (decreaseNudge (dateNow w k) currentTotal previousTotal change), Suc k)
       else Inr (None, k))"
    by (simp add: analyzeSpendingTrendsForNudge_def cur prev Let_def change_def)
  have summ: "nudgeSummary (increaseNudge t a b c) = (''spending_increase'', SPENDING_TREND, MEDIUM, True)"
    "nudgeSummary (decreaseNudge t a b c) = (''spending_decrease'', SPENDING_TREND, LOW, False)"
    by (simp_all add: nudgeSummary_def increaseNudge_def decreaseNudge_def)
  show ?thesis
    unfolding Let_def change_def[symmetric] run using summ
    by (auto simp: diff diff[symmetric])
qed

theorem trend_nudge_detector_witness:
  "analyzeSpendingTrendsForNudge trendWorld 0 ''u1'' 1697328000000 1700006399999
     = Inr (Some (increaseNudge 1700000000000 1200 1000 20), 1)"
proof -
  have cur: "getTotalSpending trendWorld ''u1'' 1697328000000 1700006399999 = Inr 1200"
    by (simp add: getTotalSpending_def trendWorld_def quietWorld_def totalOrZero_def)
  have prev: "getTotalSpending trendWorld ''u1''
                (previousPeriodStart 1697328000000 1700006399999)
                (previousPeriodEnd 1697328000000) = Inr 1000"
    by (simp add: getTotalSpending_def trendWorld_def quietWorld_def totalOrZero_def
          previousPeriodStart_def previousPeriodEnd_def moment_subtract_days_def
          moment_diff_days_def msPerDay_def)
  have now: "dateNow trendWorld 0 = 1700000000000"
    by (simp add: trendWorld_def quietWorld_def)
  show ?thesis
    using trend_nudge_detector [OF cur prev, of 0] by (auto simp: now Let_def)
qed

subsection \<open>Streak detector\<close>

text \<open>
  C6. With current streak \<open>C\<close> and longest streak \<open>L\<close>, the streak detector emits one
  milestone nudge (id \<open>streak_7\<close>) iff \<open>C = 7\<close> and one personal-best nudge (id
  \<open>personal_best\<close>, metadata \<open>personalBest = true\<close>) iff \<open>C = L\<close>, \<open>C > L - 1\<close> and
  \<open>C > 0\<close>; the two tests are independent, every nudge has priority low and is not
  actionable; for \<open>C = 7\<close> and \<open>L = 10\<close> the result is the milestone nudge alone.
\<close>

theorem streak_detector:
  "\<exists>ns k'. generateMotivationalNudges w k (Some u) = Inr (ns, k') \<and>
     (let C = current (user_streak u); L = longest (user_streak u)
      in length (filter (\<lambda>n. id_prefix n = ''streak_7'') ns) = (if C = 7 then 1 else 0) \<and>
         length (filter (\<lambda>n. id_prefix n = ''personal_best'') ns)
           = (if C = L \<and> C > L - 1 \<and> C > 0 then 1 else 0) \<and>
         length ns = (if C = 7 then 1 else 0) + (if C = L \<and> C > L - 1 \<and> C > 0 then 1 else 0) \<and>
         list_all (\<lambda>n. ntype n = STREAK_CELEBRATION \<and> priority n = LOW \<and> \<not> actionable n) ns \<and>
         map (\<lambda>n. map_of (metadata n) ''personalBest'')
             (filter (\<lambda>n. id_prefix n = ''personal_best'') ns)
           = (if C = L \<and> C > L - 1 \<and> C > 0 then [Some (Bool True)] else []) \<and>
         k' = k + length ns \<and>
         (C = 7 \<and> L = 10 \<longrightarrow> ns = [streak7Nudge (dateNow w k) 7]))"
  by (simp add: generateMotivationalNudges_def Let_def streak7Nudge_def personalBestNudge_def)

theorem streak_detector_witness:
  "generateMotivationalNudges quietWorld 0 (Some user710)
     = Inr ([streak7Nudge 1700000000000 7], 1)"
proof -
  have now: "dateNow quietWorld 0 = 1700000000000"
    by (simp add: quietWorld_def)
  have "current (user_streak user710) = 7 \<and> longest (user_streak user710) = 10"
    by (simp add: user710_def)
  then show ?thesis
    using streak_detector [of quietWorld 0 user710]
    by (auto simp: now Let_def split: if_splits)
qed

subsection \<open>Insight aggregator\<close>

text \<open>
  C7. Whenever the store answers both totals and the previous total is not negative:
  with \<open>change = 0\<close> for a previous total of 0 and
  \<open>change = (current - previous) / previous * 100\<close> otherwise, the aggregator labels the
  trend up iff \<open>change > 5\<close>, down iff \<open>change < -5\<close> and stable otherwise, and reports
  \<open>change\<close> to one decimal; with a previous total of 0 it reports 0 and stable. For a
  previous total of 1000 and a current total of 1200 the trend is up and the trend
  detector emits its increase nudge.
\<close>

theorem aggregator_trend:
  assumes cur: "getTotalSpending w userId startDate endDate = Inr currentTotal"
    and prev: "getTotalSpending w userId (previousPeriodStart startDate endDate)
                 (previousPeriodEnd startDate) = Inr previousTotal"
    and nonneg: "previousTotal \<ge> 0"
  shows "\<exists>sp. analyzeSpendingTrends w userId startDate endDate = Inr sp \<and>
     (let change = (if previousTotal = 0 then 0
                    else (currentTotal - previousTotal) / previousTotal * 100)
      in (trend sp = ''up'') = (change > 5) \<and>
         (trend sp = ''down'') = (change < - 5) \<and>
         (trend sp = ''stable'') = (\<not> change > 5 \<and> \<not> change < - 5) \<and>
         changePercentage sp = toFixed 1 change \<and>
         isIncreasing sp = (change > 5)) \<and>
     (previousTotal = 0 \<longrightarrow> changePercentage sp = 0 \<and> trend sp = ''stable'') \<and>
     (previousTotal = 1000 \<and> currentTotal = 1200 \<longrightarrow>
        trend sp = ''up'' \<and>
        analyzeSpendingTrendsForNudge w k userId startDate endDate
          = Inr (Some (increaseNudge (dateNow w k) 1200 1000 20), Suc k))"
  using nonneg
  by (auto simp add: analyzeSpendingTrends_def analyzeSpendingTrendsForNudge_def cur prev
        Let_def toFixed_def)

theorem aggregator_trend_witness:
  "\<exists>sp. analyzeSpendingTrends trendWorld ''u1'' 1697328000000 1700006399999 = Inr sp \<and>
     trend sp = ''up'' \<and> changePercentage sp = 20 \<and>
     analyzeSpendingTrendsForNudge trendWorld 0 ''u1'' 1697328000000 1700006399999
       = Inr (Some (increaseNudge 1700000000000 1200 1000 20), 1)"
proof -
  have cur: "getTotalSpending trendWorld ''u1'' 1697328000000 1700006399999 = Inr 1200"
    by (simp add: getTotalSpending_def trendWorld_def quietWorld_def totalOrZero_def)
  have prev: "getTotalSpending trendWorld ''u1''
                (previousPeriodStart 1697328000000 1700006399999)
                (previousPeriodEnd 1697328000000) = Inr 1000"
    by (simp add: getTotalSpending_def trendWorld_def quietWorld_def totalOrZero_def
          previousPeriodStart_def previousPeriodEnd_def moment_subtract_days_def
          moment_diff_days_def msPerDay_def)
  have nonneg: "(1000::real) \<ge> 0" by simp
  have now: "dateNow trendWorld 0 = 1700000000000"
    by (simp add: trendWorld_def quietWorld_def)
  show ?thesis
    using aggregator_trend [OF cur prev nonneg, of 0] by (auto simp: now toFixed_def Let_def)
qed

lemma quietWorld_fields:
  "dateNow quietWorld k = 1700000000000"
  "defaultStart quietWorld = 1697328000000"
  "defaultEnd quietWorld = 1700006399999"
  "expenseFind quietWorld u s e = Inr []"
  "categoryFind quietWorld u = None"
  "categoryDocs quietWorld = []"
  "userFindById quietWorld u = Inr (Some user77)"
  "aggregateTotal quietWorld u s e = Inr None"
  "aggregateCategory quietWorld u c s e = Inr None"
  by (simp_all add: quietWorld_def)

lemma quiet_motiv:
  "generateMotivationalNudges quietWorld 0 (Some user77)
     = Inr ([streak7Nudge 1700000000000 7, personalBestNudge 1700000000000 7], 2)"
  by (simp add: generateMotivationalNudges_def quietWorld_fields user77_def Let_def)

lemma quiet_all:
  "generateAllNudges quietWorld 0 ''u1'' [] [] (Some user77) 1697328000000 1700006399999
     = [streak7Nudge 1700000000000 7, personalBestNudge 1700000000000 7]"
  by (simp add: generateAllNudges_def quiet_motiv detectWeekendSpending_def pushIf_def
      detectBudgetOverspend_def analyzeSpendingTrendsForNudge_def Let_def
      detectCategoryPatterns_def detectSavingsMilestones_def
      getTotalSpending_def quietWorld_fields totalOrZero_def)

lemma quiet_sorted:
  "prioritizeNudges [streak7Nudge 1700000000000 7, personalBestNudge 1700000000000 7]
     = [streak7Nudge 1700000000000 7, personalBestNudge 1700000000000 7]"
  by (simp add: prioritizeNudges_def arraySort_def compareNudges_def id_timestamp
        priorityOrder_def streak7Nudge_def personalBestNudge_def)

lemma quiet_insights:
  "generateInsights quietWorld ''u1'' None None =
     Inr \<lparr> nudges = [streak7Nudge 1700000000000 7, personalBestNudge 1700000000000 7],
           insights = \<lparr> spendingPatterns =
                          \<lparr> isIncreasing = False, trend = ''stable'', changePercentage = 0,
                            currentPeriod = 0, previousPeriod = 0 \<rparr>,
                        categoryAlerts = [],
                        streakInfo = user_streak user77 \<rparr>,
           period = (1697328000000, 1700006399999) \<rparr>"
  by (simp add: generateInsights_def quietWorld_fields getUserExpenses_def getUserCategories_def
        getUserInfo_def quiet_all quiet_sorted analyzeSpendingTrends_def getTotalSpending_def
        totalOrZero_def analyzeCategorySpending_def toFixed_def Let_def)

lemma busyWorld_fields:
  "utcOffset busyWorld = 0"
  "dateNow busyWorld k = 1700000000000 + k"
  "startOfMonth busyWorld = 1698796800000"
  "endOfMonth busyWorld = 1701388799999"
  "remainingDaysOfMonth busyWorld = 16"
  "defaultStart busyWorld = 1697328000000"
  "defaultEnd busyWorld = 1700006399999"
  "expenseFind busyWorld u s e = Inr giftExpenses"
  "categoryFind busyWorld u = None"
  "categoryDocs busyWorld = [catFood, catTransport, catGifts, catBills, catOld]"
  "userFindById busyWorld u = Inr (Some user77)"
  "aggregateTotal busyWorld u s e = (if s = 1697328000000 then Inr (Some 1200) else Inr (Some 1000))"
  "aggregateCategory busyWorld u c s e =
     (if c = ''c1'' then Inr (Some 5100) else if c = ''c2'' then Inr (Some 2550) else Inr None)"
  "documentToString busyWorld = inspectText"
  by (simp_all add: busyWorld_def)

lemma busy_categories:
  "getUserCategories busyWorld ''u1'' = Inr [catFood, catTransport, catGifts]"
  by (simp add: getUserCategories_def busyWorld_fields catFood_def catTransport_def
        catGifts_def catBills_def catOld_def)

lemma gift_days:
  "isWeekend busyWorld \<lparr> amount = a, date = 1699700000000, categoryId = c \<rparr>"
  "\<not> isWeekday busyWorld \<lparr> amount = a, date = 1699700000000, categoryId = c \<rparr>"
  "\<not> isWeekend busyWorld \<lparr> amount = a, date = 1699833600000, categoryId = c \<rparr>"
  "isWeekday busyWorld \<lparr> amount = a, date = 1699833600000, categoryId = c \<rparr>"
  "\<not> isWeekend busyWorld \<lparr> amount = a, date = 1699920000000, categoryId = c \<rparr>"
  "isWeekday busyWorld \<lparr> amount = a, date = 1699920000000, categoryId = c \<rparr>"
  by (simp_all add: isWeekend_def isWeekday_def moment_day_def msPerDay_def busyWorld_fields)

lemma busy_weekend:
  "detectWeekendSpending busyWorld 0 ''u1'' giftExpenses
     = (Some (weekendNudge 1700000000000 100 1000 10), 1)"
  by (simp add: detectWeekendSpending_def giftExpenses_def gift_days sumAmounts_def
        busyWorld_fields Let_def)

lemma busy_budget:
  "detectBudgetOverspend busyWorld (Suc 0) ''u1'' [catFood, catTransport, catGifts] s e
     = Inr ([overageNudge 1700000000001 catFood 5000 5100 102,
             warningNudge 1700000000002 catTransport 3000 2550 85 16], 3)"
  by (simp add: detectBudgetOverspend_def getCategorySpendingThisMonth_def
        getCategorySpending_def totalOrZero_def busyWorld_fields
        catFood_def catTransport_def catGifts_def Let_def)

lemma busy_trend:
  "analyzeSpendingTrendsForNudge busyWorld 3 ''u1'' 1697328000000 1700006399999
     = Inr (Some (increaseNudge 1700000000003 1200 1000 20), 4)"
  by (simp add: analyzeSpendingTrendsForNudge_def getTotalSpending_def totalOrZero_def
        busyWorld_fields previousPeriodStart_def previousPeriodEnd_def
        moment_subtract_days_def moment_diff_days_def msPerDay_def Let_def)

lemma busy_motivation:
  "generateMotivationalNudges busyWorld 4 (Some user77)
     = Inr ([streak7Nudge 1700000000004 7, personalBestNudge 1700000000005 7], 6)"
  by (simp add: generateMotivationalNudges_def busyWorld_fields user77_def Let_def)

lemma busy_patterns:
  "detectCategoryPatterns busyWorld 6 ''u1'' giftExpenses [catFood, catTransport, catGifts]
     = Inr ([], 6)"
  by (simp add: detectCategoryPatterns_def giftExpenses_def categoryKey_def busyWorld_fields
        inspectText_def catFood_def catTransport_def catGifts_def)

subsection \<open>Prioritizer\<close>

lemma compareNudges_le: "(compareNudges a b \<le> 0) = (nudgeKey a \<le> nudgeKey b)"
  by (auto simp: compareNudges_def id_timestamp nudgeKey_def Let_def less_eq_prod_def)

lemma insertBy_insort: "insertBy compareNudges x ys = insort_key nudgeKey x ys"
  by (induction ys) (simp_all add: compareNudges_le)

lemma prioritizeNudges_sort_key: "prioritizeNudges ns = sort_key nudgeKey ns"
proof -
  have "insertBy compareNudges = insort_key nudgeKey"
    by (intro ext) (rule insertBy_insort)
  then show ?thesis by (simp add: prioritizeNudges_def arraySort_def sort_key_def)
qed

lemma priorityOrder_inj: "(priorityOrder p = priorityOrder q) = (p = q)"
  by (cases p; cases q) (simp_all add: priorityOrder_def)

lemma nudgeKey_le_rank:
  "nudgeKey a \<le> nudgeKey b \<Longrightarrow> priorityOrder (priority a) \<le> priorityOrder (priority b)"
  by (auto simp: nudgeKey_def less_eq_prod_def)

lemma nudgeKey_le_stamp:
  "nudgeKey a \<le> nudgeKey b \<Longrightarrow> priority a = priority b \<longrightarrow> id_stamp b \<le> id_stamp a"
  by (auto simp: nudgeKey_def less_eq_prod_def)

lemma prioritize_key_sorted:
  "sorted_wrt (\<lambda>a b. nudgeKey a \<le> nudgeKey b) (prioritizeNudges ns)"
proof -
  have "sorted (map nudgeKey (prioritizeNudges ns))"
    by (simp add: prioritizeNudges_sort_key)
  then show ?thesis by (simp add: sorted_map)
qed

lemma prioritize_rank_sorted:
  "sorted_wrt (\<lambda>a b. priorityOrder (priority a) \<le> priorityOrder (priority b))
     (prioritizeNudges ns)"
  using prioritize_key_sorted
  by (rule sorted_wrt_mono_rel[rotated]) (simp add: nudgeKey_le_rank)

lemma prioritize_stamp_sorted:
  "sorted_wrt (\<lambda>a b. priority a = priority b \<longrightarrow> id_stamp b \<le> id_stamp a)
     (prioritizeNudges ns)"
  using prioritize_key_sorted
  by (rule sorted_wrt_mono_rel[rotated]) (simp add: nudgeKey_le_stamp)

lemma prioritize_stable:
  "filter (\<lambda>n. priority n = p \<and> id_stamp n = t) (prioritizeNudges ns)
     = filter (\<lambda>n. priority n = p \<and> id_stamp n = t) ns"
proof -
  have "filter (\<lambda>n. nudgeKey n = (priorityOrder p, - int t)) (sort_key nudgeKey ns)
      = filter (\<lambda>n. nudgeKey n = (priorityOrder p, - int t)) ns"
    by (rule sort_key_stable)
  moreover have "(\<lambda>n. nudgeKey n = (priorityOrder p, - int t))
      = (\<lambda>n. priority n = p \<and> id_stamp n = t)"
    by (auto simp: nudgeKey_def priorityOrder_inj)
  ultimately show ?thesis by (simp add: prioritizeNudges_sort_key)
qed

lemma prioritize_mset: "mset (prioritizeNudges ns) = mset ns"
  by (simp add: prioritizeNudges_sort_key)

lemma generateInsights_nudges:
  assumes "generateInsights w userId startDate endDate = Inr b"
  shows "\<exists>expenses categories usr.
      getUserExpenses w userId
         (case startDate of None \<Rightarrow> defaultStart w | Some d \<Rightarrow> d)
         (case endDate of None \<Rightarrow> defaultEnd w | Some d \<Rightarrow> d) = Inr expenses \<and>
      getUserCategories w userId = Inr categories \<and>
      getUserInfo w userId = Inr usr \<and>
      nudges b = take 5 (prioritizeNudges
         (generateAllNudges w 0 userId expenses categories usr
            (case startDate of None \<Rightarrow> defaultStart w | Some d \<Rightarrow> d)
            (case endDate of None \<Rightarrow> defaultEnd w | Some d \<Rightarrow> d)))"
  using assms
  by (auto simp: generateInsights_def Let_def split: sum.splits option.splits)

text \<open>
  C1 (as amended). Whenever \<open>generateInsights\<close> returns, its nudge list is the list that
  \<open>generateAllNudges\<close> collected, sorted stably by priority rank high(1) < medium(2)
  < low(3) and, within one priority, by descending timestamp (the number that the
  comparator reads back from the end of the id), then cut to its first 5 entries.
  Nudges of equal priority and equal timestamp keep the order in which they were
  built. The list never has more than 5 entries and no lower-priority nudge precedes a
  higher-priority one.
\<close>

theorem prioritized_nudges:
  assumes run: "generateInsights w userId startDate endDate = Inr b"
  shows "length (nudges b) \<le> 5 \<and>
      sorted_wrt (\<lambda>x y. priorityOrder (priority x) \<le> priorityOrder (priority y)) (nudges b) \<and>
      sorted_wrt (\<lambda>x y. priority x = priority y \<longrightarrow> id_stamp y \<le> id_stamp x) (nudges b) \<and>
      priorityOrder HIGH = 1 \<and> priorityOrder MEDIUM = 2 \<and> priorityOrder LOW = 3 \<and>
      parseInt (last (splitOn CHR ''_'' (nudgeId n))) = Some (id_stamp n) \<and>
      (\<exists>expenses categories usr.
      (let sd = (case startDate of None \<Rightarrow> defaultStart w | Some d \<Rightarrow> d);
           ed = (case endDate of None \<Rightarrow> defaultEnd w | Some d \<Rightarrow> d);
           raw = generateAllNudges w 0 userId expenses categories usr sd ed
       in getUserExpenses w userId sd ed = Inr expenses \<and>
          getUserCategories w userId = Inr categories \<and>
          getUserInfo w userId = Inr usr \<and>
          nudges b = take 5 (prioritizeNudges raw) \<and>
          mset (prioritizeNudges raw) = mset raw \<and>
          sorted_wrt (\<lambda>x y. priorityOrder (priority x) \<le> priorityOrder (priority y))
            (prioritizeNudges raw) \<and>
          sorted_wrt (\<lambda>x y. priority x = priority y \<longrightarrow> id_stamp y \<le> id_stamp x)
            (prioritizeNudges raw) \<and>
          (\<forall>p t. filter (\<lambda>n. priority n = p \<and> id_stamp n = t) (prioritizeNudges raw)
                 = filter (\<lambda>n. priority n = p \<and> id_stamp n = t) raw)))"
proof -
  from generateInsights_nudges[OF run] obtain expenses categories usr where
    g: "getUserExpenses w userId
         (case startDate of None \<Rightarrow> defaultStart w | Some d \<Rightarrow> d)
         (case endDate of None \<Rightarrow> defaultEnd w | Some d \<Rightarrow> d) = Inr expenses"
       "getUserCategories w userId = Inr categories"
       "getUserInfo w userId = Inr usr"
    and n: "nudges b = take 5 (prioritizeNudges
         (generateAllNudges w 0 userId expenses categories usr
            (case startDate of None \<Rightarrow> defaultStart w | Some d \<Rightarrow> d)
            (case endDate of None \<Rightarrow> defaultEnd w | Some d \<Rightarrow> d)))"
    by blast
  have len: "length (nudges b) \<le> 5" by (simp add: n)
  have s1: "sorted_wrt (\<lambda>x y. priorityOrder (priority x) \<le> priorityOrder (priority y)) (nudges b)"
    unfolding n by (rule sorted_wrt_take) (rule prioritize_rank_sorted)
  have s2: "sorted_wrt (\<lambda>x y. priority x = priority y \<longrightarrow> id_stamp y \<le> id_stamp x) (nudges b)"
    unfolding n by (rule sorted_wrt_take) (rule prioritize_stamp_sorted)
  have ranks: "priorityOrder HIGH = 1 \<and> priorityOrder MEDIUM = 2 \<and> priorityOrder LOW = 3"
    by (simp add: priorityOrder_def)
  have ex: "\<exists>expenses categories usr.
      (let sd = (case startDate of None \<Rightarrow> defaultStart w | Some d \<Rightarrow> d);
           ed = (case endDate of None \<Rightarrow> defaultEnd w | Some d \<Rightarrow> d);
           raw = generateAllNudges w 0 userId expenses categories usr sd ed
       in getUserExpenses w userId sd ed = Inr expenses \<and>
          getUserCategories w userId = Inr categories \<and>
          getUserInfo w userId = Inr usr \<and>
          nudges b = take 5 (prioritizeNudges raw) \<and>
          mset (prioritizeNudges raw) = mset raw \<and>
          sorted_wrt (\<lambda>x y. priorityOrder (priority x) \<le> priorityOrder (priority y))
            (prioritizeNudges raw) \<and>
          sorted_wrt (\<lambda>x y. priority x = priority y \<longrightarrow> id_stamp y \<le> id_stamp x)
            (prioritizeNudges raw) \<and>
          (\<forall>p t. filter (\<lambda>n. priority n = p \<and> id_stamp n = t) (prioritizeNudges raw)
                 = filter (\<lambda>n. priority n = p \<and> id_stamp n = t) raw))"
    unfolding Let_def
    apply (intro exI[of _ expenses] exI[of _ categories] exI[of _ usr] conjI allI)
           apply (rule g(1))
          apply (rule g(2))
         apply (rule g(3))
        apply (rule n)
       apply (rule prioritize_mset)
      apply (rule prioritize_rank_sorted)
     apply (rule prioritize_stamp_sorted)
    apply (rule prioritize_stable)
    done
  from len s1 s2 ranks ex id_timestamp[of n] show ?thesis by (intro conjI) simp_all
qed

lemma busy_all:
  "generateAllNudges busyWorld 0 ''u1'' giftExpenses [catFood, catTransport, catGifts]
       (Some user77) 1697328000000 1700006399999
     = [weekendNudge 1700000000000 100 1000 10,
        overageNudge 1700000000001 catFood 5000 5100 102,
        warningNudge 1700000000002 catTransport 3000 2550 85 16,
        increaseNudge 1700000000003 1200 1000 20,
        streak7Nudge 1700000000004 7,
        personalBestNudge 1700000000005 7]"
  by (simp add: generateAllNudges_def busy_weekend busy_budget busy_trend busy_motivation
        busy_patterns pushIf_def detectSavingsMilestones_def Let_def)

lemma busy_sorted:
  "prioritizeNudges
       [weekendNudge 1700000000000 100 wa wb,
        overageNudge 1700000000001 c1 x1 y1 z1,
        warningNudge 1700000000002 c2 x2 y2 z2 d2,
        increaseNudge 1700000000003 x3 y3 z3,
        streak7Nudge 1700000000004 i4,
        personalBestNudge 1700000000005 i5]
     = [overageNudge 1700000000001 c1 x1 y1 z1,
        weekendNudge 1700000000000 100 wa wb,
        increaseNudge 1700000000003 x3 y3 z3,
        warningNudge 1700000000002 c2 x2 y2 z2 d2,
        personalBestNudge 1700000000005 i5,
        streak7Nudge 1700000000004 i4]"
proof -
  have f: "priority (weekendNudge t 100 a b) = HIGH" "id_stamp (weekendNudge t r a b) = t"
    "priority (overageNudge t c x y z) = HIGH" "id_stamp (overageNudge t c x y z) = t"
    "priority (warningNudge t c x y z d) = MEDIUM" "id_stamp (warningNudge t c x y z d) = t"
    "priority (increaseNudge t x y z) = MEDIUM" "id_stamp (increaseNudge t x y z) = t"
    "priority (streak7Nudge t i) = LOW" "id_stamp (streak7Nudge t i) = t"
    "priority (personalBestNudge t i) = LOW" "id_stamp (personalBestNudge t i) = t"
    for t r a b c x y z d i
    by (simp_all add: weekendNudge_def overageNudge_def warningNudge_def increaseNudge_def
          streak7Nudge_def personalBestNudge_def)
  show ?thesis
    by (simp add: prioritizeNudges_def arraySort_def compareNudges_def id_timestamp
          priorityOrder_def f)
qed

lemma busy_aggregates:
  "\<exists>p. analyzeSpendingTrends busyWorld ''u1'' 1697328000000 1700006399999 = Inr p"
  "\<exists>a. analyzeCategorySpending busyWorld ''u1'' [catFood, catTransport, catGifts]
          1697328000000 1700006399999 = Inr a"
  by (simp_all add: analyzeSpendingTrends_def getTotalSpending_def totalOrZero_def
        busyWorld_fields Let_def analyzeCategorySpending_def getCategorySpending_def
        catFood_def catTransport_def catGifts_def)

lemma busy_insights:
  "\<exists>b. generateInsights busyWorld ''u1'' None None = Inr b \<and>
       nudges b = [overageNudge 1700000000001 catFood 5000 5100 102,
                   weekendNudge 1700000000000 100 1000 10,
                   increaseNudge 1700000000003 1200 1000 20,
                   warningNudge 1700000000002 catTransport 3000 2550 85 16,
                   personalBestNudge 1700000000005 7]"
proof -
  from busy_aggregates obtain p a where
    "analyzeSpendingTrends busyWorld ''u1'' 1697328000000 1700006399999 = Inr p"
    "analyzeCategorySpending busyWorld ''u1'' [catFood, catTransport, catGifts]
          1697328000000 1700006399999 = Inr a"
    by blast
  then show ?thesis
    by (simp add: generateInsights_def busyWorld_fields getUserExpenses_def busy_categories
          getUserInfo_def busy_all busy_sorted Let_def)
qed

theorem prioritized_nudges_witness:
  "\<exists>b. generateInsights busyWorld ''u1'' None None = Inr b \<and>
       length (nudges b) \<le> 5 \<and>
       sorted_wrt (\<lambda>x y. priorityOrder (priority x) \<le> priorityOrder (priority y)) (nudges b) \<and>
       map id_prefix (nudges b)
         = [''budget_overage_c1'', ''weekend_spending'', ''spending_increase'',
            ''budget_warning_c2'', ''personal_best'']"
proof -
  from busy_insights obtain b where
    run: "generateInsights busyWorld ''u1'' None None = Inr b"
    and ns: "nudges b = [overageNudge 1700000000001 catFood 5000 5100 102,
                   weekendNudge 1700000000000 100 1000 10,
                   increaseNudge 1700000000003 1200 1000 20,
                   warningNudge 1700000000002 catTransport 3000 2550 85 16,
                   personalBestNudge 1700000000005 7]"
    by blast
  have ids: "map id_prefix (nudges b)
         = [''budget_overage_c1'', ''weekend_spending'', ''spending_increase'',
            ''budget_warning_c2'', ''personal_best'']"
    by (simp add: ns overageNudge_def weekendNudge_def increaseNudge_def
          warningNudge_def personalBestNudge_def catFood_def catTransport_def)
  note th = prioritized_nudges [OF run, of "streak7Nudge 0 7"]
  from th have l: "length (nudges b) \<le> 5" by (rule conjunct1)
  from th have s: "sorted_wrt (\<lambda>x y. priorityOrder (priority x) \<le> priorityOrder (priority y))
      (nudges b)"
    by (rule conjunct2[THEN conjunct1])
  show ?thesis
    by (intro exI[of _ b] conjI run l s ids)
qed

text \<open>
  Against C1 as stated: two nudges of equal priority built in the same millisecond of one
  run come out in the order of their construction, not in the reverse order.
\<close>

theorem prioritized_nudges_counterexample:
  "generateAllNudges quietWorld 0 ''u1'' [] [] (Some user77) 1697328000000 1700006399999
     = [streak7Nudge 1700000000000 7, personalBestNudge 1700000000000 7] \<and>
   priority (streak7Nudge 1700000000000 7) = priority (personalBestNudge 1700000000000 7) \<and>
   nudges (projr (generateInsights quietWorld ''u1'' None None))
     = [streak7Nudge 1700000000000 7, personalBestNudge 1700000000000 7] \<and>
   nudges (projr (generateInsights quietWorld ''u1'' None None))
     \<noteq> rev [streak7Nudge 1700000000000 7, personalBestNudge 1700000000000 7]"
  by (simp add: quiet_all quiet_insights streak7Nudge_def personalBestNudge_def)

subsection \<open>Budget detector\<close>








subsection \<open>Data gatherer\<close>

lemma budgetLoop_tracked:
  "budgetLoop w userId (filter budgetTracked cats) acc k = budgetLoop w userId cats acc k"
  by (induction cats arbitrary: acc k)
     (auto simp: budgetTracked_def Let_def split: option.splits sum.splits)

lemma alertLoop_tracked:
  "alertLoop w userId s e (filter budgetTracked cats) acc = alertLoop w userId s e cats acc"
  by (induction cats arbitrary: acc)
     (auto simp: budgetTracked_def Let_def split: option.splits sum.splits)

text \<open>
  C9 (as amended). The data gatherer returns exactly the active categories that belong
  to the user, whatever their monthly budget, and \<open>generateInsights\<close> hands this list
  unchanged to \<open>generateAllNudges\<close>. The restriction to budget-tracked categories
  (monthly budget present and positive) is made later, inside the budget detector and
  inside the category-alert aggregator: each of them gives the same result on the
  gathered list as on its budget-tracked part.
\<close>

theorem gathered_categories:
  assumes "getUserCategories w userId = Inr categories"
  shows "categories = filter (\<lambda>c. cat_userId c = userId \<and> cat_isActive c) (categoryDocs w) \<and>
         set categories = {c \<in> set (categoryDocs w). cat_userId c = userId \<and> cat_isActive c} \<and>
         detectBudgetOverspend w k userId categories startDate endDate
           = detectBudgetOverspend w k userId (filter budgetTracked categories) startDate endDate \<and>
         analyzeCategorySpending w userId categories startDate endDate
           = analyzeCategorySpending w userId (filter budgetTracked categories) startDate endDate \<and>
         (generateInsights w userId start0 end0 = Inr b \<longrightarrow>
            (\<exists>expenses usr.
               nudges b = take 5 (prioritizeNudges
                 (generateAllNudges w 0 userId expenses categories usr
                    (case start0 of None \<Rightarrow> defaultStart w | Some d \<Rightarrow> d)
                    (case end0 of None \<Rightarrow> defaultEnd w | Some d \<Rightarrow> d)))))"
proof -
  from assms have c: "categories = filter (\<lambda>c. cat_userId c = userId \<and> cat_isActive c) (categoryDocs w)"
    by (simp add: getUserCategories_def split: option.splits)
  then have s: "set categories = {c \<in> set (categoryDocs w). cat_userId c = userId \<and> cat_isActive c}"
    by auto
  have b: "detectBudgetOverspend w k userId categories startDate endDate
           = detectBudgetOverspend w k userId (filter budgetTracked categories) startDate endDate"
    by (simp only: detectBudgetOverspend_def budgetLoop_tracked)
  have a: "analyzeCategorySpending w userId categories startDate endDate
           = analyzeCategorySpending w userId (filter budgetTracked categories) startDate endDate"
    by (simp only: analyzeCategorySpending_def alertLoop_tracked)
  have h: "generateInsights w userId start0 end0 = Inr b \<longrightarrow>
            (\<exists>expenses usr.
               nudges b = take 5 (prioritizeNudges
                 (generateAllNudges w 0 userId expenses categories usr
                    (case start0 of None \<Rightarrow> defaultStart w | Some d \<Rightarrow> d)
                    (case end0 of None \<Rightarrow> defaultEnd w | Some d \<Rightarrow> d))))"
  proof
    assume "generateInsights w userId start0 end0 = Inr b"
    from generateInsights_nudges[OF this] assms
    show "\<exists>expenses usr.
               nudges b = take 5 (prioritizeNudges
                 (generateAllNudges w 0 userId expenses categories usr
                    (case start0 of None \<Rightarrow> defaultStart w | Some d \<Rightarrow> d)
                    (case end0 of None \<Rightarrow> defaultEnd w | Some d \<Rightarrow> d)))"
      by auto
  qed
  from c s b a h show ?thesis by (intro conjI)
qed

theorem gathered_categories_witness:
  "[catFood, catTransport, catGifts]
     = filter (\<lambda>c. cat_userId c = ''u1'' \<and> cat_isActive c) (categoryDocs busyWorld) \<and>
   detectBudgetOverspend busyWorld 1 ''u1'' [catFood, catTransport, catGifts]
       1697328000000 1700006399999
     = detectBudgetOverspend busyWorld 1 ''u1'' [catFood, catTransport]
       1697328000000 1700006399999"
proof -
  have tracked: "filter budgetTracked [catFood, catTransport, catGifts] = [catFood, catTransport]"
    by (simp add: budgetTracked_def catFood_def catTransport_def catGifts_def)
  note th = gathered_categories [OF busy_categories, of 1 1697328000000 1700006399999,
      unfolded tracked]
  show ?thesis
    by (intro conjI th[THEN conjunct1] th[THEN conjunct2, THEN conjunct2, THEN conjunct1])
qed

text \<open>
  Against C9 as stated: an active category of the user with a monthly budget of 0 is
  part of the gathered list.
\<close>

theorem gathered_categories_counterexample:
  "getUserCategories busyWorld ''u1'' = Inr [catFood, catTransport, catGifts] \<and>
   monthlyBudget catGifts = Some 0 \<and>
   \<not> budgetTracked catGifts"
proof (intro conjI)
  show "getUserCategories busyWorld ''u1'' = Inr [catFood, catTransport, catGifts]"
    by (rule busy_categories)
  show "monthlyBudget catGifts = Some 0" by (simp add: catGifts_def)
  show "\<not> budgetTracked catGifts" by (simp add: budgetTracked_def catGifts_def)
qed

subsection \<open>Types of the nudges that the evaluators build\<close>

lemma builtType_nudges:
  "builtType (weekendNudge t r a b)"
  "builtType (overageNudge t c x y z)"
  "builtType (warningNudge t c x y z d)"
  "builtType (increaseNudge t x y z)"
  "builtType (decreaseNudge t x y z)"
  "builtType (streak7Nudge t i)"
  "builtType (personalBestNudge t i)"
  "builtType (smallPurchasesNudge t s c m x)"
  "builtType (spikeNudge t s c x y)"
  by (simp_all add: builtType_def weekendNudge_def overageNudge_def warningNudge_def
        increaseNudge_def decreaseNudge_def streak7Nudge_def personalBestNudge_def
        smallPurchasesNudge_def spikeNudge_def)

lemma weekend_builtType:
  "detectWeekendSpending w k userId expenses = (r, k') \<Longrightarrow> list_all builtType (pushIf [] r)"
  by (auto simp: detectWeekendSpending_def Let_def pushIf_def builtType_nudges split: if_splits)

lemma budgetLoop_builtType:
  "budgetLoop w userId cats acc k = Inr (ns, k') \<Longrightarrow> list_all builtType acc
     \<Longrightarrow> list_all builtType ns"
proof (induction cats arbitrary: acc k)
  case Nil
  then show ?case by simp
next
  case (Cons c cs)
  then show ?case
    by (auto simp: Let_def builtType_nudges split: option.splits sum.splits if_splits)
qed

lemma trend_builtType:
  "analyzeSpendingTrendsForNudge w k userId s e = Inr (r, k') \<Longrightarrow> list_all builtType acc
     \<Longrightarrow> list_all builtType (pushIf acc r)"
  by (auto simp: analyzeSpendingTrendsForNudge_def Let_def pushIf_def builtType_nudges
        split: sum.splits if_splits)

lemma motivation_builtType:
  "generateMotivationalNudges w k usr = Inr (ns, k') \<Longrightarrow> list_all builtType ns"
  by (auto simp: generateMotivationalNudges_def Let_def builtType_nudges
        split: option.splits if_splits)

lemma smallPurchasesCheck_builtType:
  "smallPurchasesCheck w cid c es acc k = (ns, k') \<Longrightarrow> list_all builtType acc
     \<Longrightarrow> list_all builtType ns"
  by (auto simp: smallPurchasesCheck_def Let_def builtType_nudges split: if_splits)

lemma spikeCheck_builtType:
  "spikeCheck w cid c es acc k = (ns, k') \<Longrightarrow> list_all builtType acc
     \<Longrightarrow> list_all builtType ns"
  by (auto simp: spikeCheck_def Let_def builtType_nudges split: if_splits)

lemma patternLoop_builtType:
  "patternLoop w cats g acc k = (ns, k') \<Longrightarrow> list_all builtType acc
     \<Longrightarrow> list_all builtType ns"
proof (induction g arbitrary: acc k)
  case Nil
  then show ?case by simp
next
  case (Cons entry rest)
  obtain cid es where entry: "entry = (cid, es)" by (cases entry)
  show ?case
  proof (cases "find (\<lambda>c. cat_id c = cid) cats")
    case None
    with Cons entry show ?thesis by simp
  next
    case (Some c)
    obtain n1 k1 where s1: "smallPurchasesCheck w cid c es acc k = (n1, k1)"
      by (cases "smallPurchasesCheck w cid c es acc k")
    obtain n2 k2 where s2: "spikeCheck w cid c es n1 k1 = (n2, k2)"
      by (cases "spikeCheck w cid c es n1 k1")
    from s1 Cons.prems(2) have "list_all builtType n1" by (rule smallPurchasesCheck_builtType)
    with s2 have "list_all builtType n2" by (rule spikeCheck_builtType)
    moreover from Cons.prems(1) entry Some s1 s2 have "patternLoop w cats rest n2 k2 = (ns, k')"
      by simp
    ultimately show ?thesis using Cons.IH by blast
  qed
qed

lemma patterns_builtType:
  "detectCategoryPatterns w k userId es cats = Inr (ns, k') \<Longrightarrow> list_all builtType ns"
  by (auto simp: detectCategoryPatterns_def split: sum.splits dest: patternLoop_builtType)

lemma generateAllNudges_builtType:
  "list_all builtType (generateAllNudges w k userId es cats usr s e)"
proof -
  obtain r k1 where w1: "detectWeekendSpending w k userId es = (r, k1)"
    by (cases "detectWeekendSpending w k userId es")
  have n1: "list_all builtType (pushIf [] r)" using w1 by (rule weekend_builtType)
  show ?thesis
  proof (cases "detectBudgetOverspend w k1 userId cats s e")
    case (Inl err)
    with w1 n1 show ?thesis by (simp add: generateAllNudges_def)
  next
    case (Inr bres)
    obtain bn k2 where bres: "bres = (bn, k2)" by (cases bres)
    from Inr bres have "list_all builtType bn"
      by (auto simp: detectBudgetOverspend_def dest: budgetLoop_builtType)
    with n1 have n2: "list_all builtType (pushIf [] r @ bn)" by simp
    show ?thesis
    proof (cases "analyzeSpendingTrendsForNudge w k2 userId s e")
      case (Inl err)
      with w1 Inr bres n2 show ?thesis by (simp add: generateAllNudges_def)
    next
      case tr: (Inr tres)
      obtain tn k3 where tres: "tres = (tn, k3)" by (cases tres)
      from tr tres have "analyzeSpendingTrendsForNudge w k2 userId s e = Inr (tn, k3)"
        by simp
      from trend_builtType[OF this n2] have n3: "list_all builtType (pushIf (pushIf [] r @ bn) tn)" .
      show ?thesis
      proof (cases "generateMotivationalNudges w k3 usr")
        case (Inl err)
        with w1 Inr bres tr tres n3 show ?thesis by (simp add: generateAllNudges_def)
      next
        case mr: (Inr mres)
        obtain mn k4 where mres: "mres = (mn, k4)" by (cases mres)
        from mr mres have "list_all builtType mn" by (auto dest: motivation_builtType)
        with n3 have n4: "list_all builtType (pushIf (pushIf [] r @ bn) tn @ mn)" by simp
        show ?thesis
        proof (cases "detectCategoryPatterns w k4 userId es cats")
          case (Inl err)
          with w1 Inr bres tr tres mr mres n4 show ?thesis by (simp add: generateAllNudges_def)
        next
          case pr: (Inr pres)
          obtain pn k5 where pres: "pres = (pn, k5)" by (cases pres)
          from pr pres have "list_all builtType pn" by (auto dest: patterns_builtType)
          with w1 Inr bres tr tres mr mres pr pres n4 show ?thesis
            by (simp add: generateAllNudges_def detectSavingsMilestones_def)
        qed
      qed
    qed
  qed
qed

lemma prioritize_set: "set (prioritizeNudges ns) = set ns"
  using prioritize_mset[of ns] by (metis set_mset_mset)

text \<open>
  C10. The savings-milestone detector returns the empty list for every user, and no
  nudge that \<open>generateInsights\<close> returns has the type \<open>savings_milestone\<close>, although that
  type is a member of the enumeration: every returned nudge has one of the five other
  types.
\<close>

theorem no_savings_milestone:
  assumes run: "generateInsights w userId startDate endDate = Inr b"
  shows "detectSavingsMilestones userId = [] \<and>
         list_all (\<lambda>n. ntype n \<noteq> SAVINGS_MILESTONE) (nudges b) \<and>
         list_all (\<lambda>n. ntype n = WEEKEND_SPENDING \<or> ntype n = BUDGET_OVERAGE \<or>
                       ntype n = SPENDING_TREND \<or> ntype n = STREAK_CELEBRATION \<or>
                       ntype n = CATEGORY_PATTERN) (nudges b)"
proof -
  from generateInsights_nudges[OF run] obtain es cats usr where
    n: "nudges b = take 5 (prioritizeNudges
         (generateAllNudges w 0 userId es cats usr
            (case startDate of None \<Rightarrow> defaultStart w | Some d \<Rightarrow> d)
            (case endDate of None \<Rightarrow> defaultEnd w | Some d \<Rightarrow> d)))"
    by blast
  have "set (nudges b) \<subseteq> set (generateAllNudges w 0 userId es cats usr
            (case startDate of None \<Rightarrow> defaultStart w | Some d \<Rightarrow> d)
            (case endDate of None \<Rightarrow> defaultEnd w | Some d \<Rightarrow> d))"
    unfolding n using set_take_subset prioritize_set by metis
  with generateAllNudges_builtType have all: "list_all builtType (nudges b)"
    unfolding list_all_iff by blast
  then have "list_all (\<lambda>n. ntype n \<noteq> SAVINGS_MILESTONE) (nudges b)"
    unfolding list_all_iff builtType_def by auto
  moreover from all have "list_all (\<lambda>n. ntype n = WEEKEND_SPENDING \<or> ntype n = BUDGET_OVERAGE \<or>
                       ntype n = SPENDING_TREND \<or> ntype n = STREAK_CELEBRATION \<or>
                       ntype n = CATEGORY_PATTERN) (nudges b)"
    unfolding list_all_iff builtType_def by auto
  ultimately show ?thesis by (simp add: detectSavingsMilestones_def)
qed

theorem no_savings_milestone_witness:
  "\<exists>b. generateInsights busyWorld ''u1'' None None = Inr b \<and>
       length (nudges b) = 5 \<and>
       list_all (\<lambda>n. ntype n \<noteq> SAVINGS_MILESTONE) (nudges b)"
proof -
  from busy_insights obtain b where
    run: "generateInsights busyWorld ''u1'' None None = Inr b"
    and ns: "nudges b = [overageNudge 1700000000001 catFood 5000 5100 102,
                   weekendNudge 1700000000000 100 1000 10,
                   increaseNudge 1700000000003 1200 1000 20,
                   warningNudge 1700000000002 catTransport 3000 2550 85 16,
                   personalBestNudge 1700000000005 7]"
    by (elim exE conjE)
  have l: "length (nudges b) = 5" by (simp add: ns)
  note th = no_savings_milestone [OF run]
  show ?thesis
    by (intro exI[of _ b] conjI run l th[THEN conjunct2, THEN conjunct1])
qed

subsection \<open>Error handling\<close>

lemma failingWorld_fields:
  "utcOffset failingWorld = 0"
  "dateNow failingWorld k = 1700000000000 + k"
  "startOfMonth failingWorld = 1698796800000"
  "endOfMonth failingWorld = 1701388799999"
  "defaultStart failingWorld = 1697328000000"
  "defaultEnd failingWorld = 1700006399999"
  "expenseFind failingWorld u s e = Inr giftExpenses"
  "categoryFind failingWorld u = None"
  "categoryDocs failingWorld = [catFood, catTransport, catGifts, catBills, catOld]"
  "userFindById failingWorld u = Inr (Some user77)"
  "aggregateTotal failingWorld u s e = (if s = 1697328000000 then Inr (Some 1200) else Inr (Some 1000))"
  "aggregateCategory failingWorld u c s e =
     (if s = 1698796800000 then Inl StoreError
      else if c = ''c1'' then Inr (Some 5100) else if c = ''c2'' then Inr (Some 2550) else Inr None)"
  by (simp_all add: failingWorld_def busyWorld_def)

lemma failing_categories:
  "getUserCategories failingWorld ''u1'' = Inr [catFood, catTransport, catGifts]"
  by (simp add: getUserCategories_def failingWorld_fields catFood_def catTransport_def
        catGifts_def catBills_def catOld_def)

lemma failing_weekend:
  "detectWeekendSpending failingWorld 0 ''u1'' giftExpenses
     = (Some (weekendNudge 1700000000000 100 1000 10), Suc 0)"
  by (simp add: detectWeekendSpending_def giftExpenses_def isWeekend_def isWeekday_def
        moment_day_def msPerDay_def sumAmounts_def failingWorld_fields Let_def)

lemma failing_budget:
  "detectBudgetOverspend failingWorld (Suc 0) ''u1'' [catFood, catTransport, catGifts] s e
     = Inl StoreError"
  by (simp add: detectBudgetOverspend_def getCategorySpendingThisMonth_def
        getCategorySpending_def failingWorld_fields catFood_def)

lemma failing_motivation:
  "generateMotivationalNudges failingWorld (Suc 0) (Some user77)
     = Inr ([streak7Nudge 1700000000001 7, personalBestNudge 1700000000002 7], 3)"
  by (simp add: generateMotivationalNudges_def failingWorld_fields user77_def Let_def)

lemma failing_all:
  "generateAllNudges failingWorld 0 ''u1'' giftExpenses [catFood, catTransport, catGifts]
       (Some user77) 1697328000000 1700006399999
     = [weekendNudge 1700000000000 100 1000 10]"
  by (simp add: generateAllNudges_def failing_weekend failing_budget pushIf_def)

lemma failing_trends:
  "analyzeSpendingTrends failingWorld ''u1'' 1697328000000 1700006399999
     = Inr \<lparr> isIncreasing = True, trend = ''up'', changePercentage = 20,
             currentPeriod = 1200, previousPeriod = 1000 \<rparr>"
  by (simp add: analyzeSpendingTrends_def getTotalSpending_def totalOrZero_def
        failingWorld_fields previousPeriodStart_def previousPeriodEnd_def
        moment_subtract_days_def moment_diff_days_def msPerDay_def toFixed_def Let_def)

lemma failing_alerts:
  "analyzeCategorySpending failingWorld ''u1'' [catFood, catTransport, catGifts]
       1697328000000 1700006399999
     = Inr [\<lparr> alert_categoryId = ''c1'', alert_name = ''Food'', alert_spent = 5100,
               alert_budget = 5000, alert_percentage = 102, overBudget = True \<rparr>,
            \<lparr> alert_categoryId = ''c2'', alert_name = ''Transport'', alert_spent = 2550,
               alert_budget = 3000, alert_percentage = 85, overBudget = False \<rparr>]"
  by (simp add: analyzeCategorySpending_def getCategorySpending_def totalOrZero_def
        failingWorld_fields catFood_def catTransport_def catGifts_def toFixed_def Let_def)

lemma single_sorted: "prioritizeNudges [n] = [n]"
  by (simp add: prioritizeNudges_def arraySort_def)

lemma failing_insights:
  "generateInsights failingWorld ''u1'' None None
     = Inr \<lparr> nudges = [weekendNudge 1700000000000 100 1000 10],
             insights =
               \<lparr> spendingPatterns =
                   \<lparr> isIncreasing = True, trend = ''up'', changePercentage = 20,
                     currentPeriod = 1200, previousPeriod = 1000 \<rparr>,
                 categoryAlerts =
                   [\<lparr> alert_categoryId = ''c1'', alert_name = ''Food'', alert_spent = 5100,
                       alert_budget = 5000, alert_percentage = 102, overBudget = True \<rparr>,
                    \<lparr> alert_categoryId = ''c2'', alert_name = ''Transport'', alert_spent = 2550,
                       alert_budget = 3000, alert_percentage = 85, overBudget = False \<rparr>],
                 streakInfo = user_streak user77 \<rparr>,
             period = (1697328000000, 1700006399999) \<rparr>"
  by (simp add: generateInsights_def failingWorld_fields getUserExpenses_def failing_categories
        getUserInfo_def failing_all failing_trends failing_alerts single_sorted)

lemma generateInsights_isl:
  "isl (generateInsights w userId startDate endDate) =
     (let sd = (case startDate of None \<Rightarrow> defaultStart w | Some d \<Rightarrow> d);
          ed = (case endDate of None \<Rightarrow> defaultEnd w | Some d \<Rightarrow> d)
      in isl (getUserExpenses w userId sd ed) \<or> isl (getUserCategories w userId) \<or>
         isl (getUserInfo w userId) \<or> getUserInfo w userId = Inr None \<or>
         isl (analyzeSpendingTrends w userId sd ed) \<or>
         (\<exists>categories. getUserCategories w userId = Inr categories \<and>
             isl (analyzeCategorySpending w userId categories sd ed)))"
  by (auto simp: generateInsights_def Let_def split: sum.splits option.splits)

lemma pickRejection_cases: "pickRejection w e es = e \<or> pickRejection w e es \<in> set es"
proof -
  have "firstRejected w (e # es) mod Suc (length es) < length (e # es)" by simp
  then have "pickRejection w e es \<in> set (e # es)"
    unfolding pickRejection_def by (rule nth_mem)
  then show ?thesis by auto
qed

lemma rejection_mem: "err \<in> set (rejection r) \<Longrightarrow> r = Inl err"
  by (cases r) (simp_all add: rejection_def)

lemma generateInsights_error:
  assumes run: "generateInsights w userId startDate endDate = Inl err"
  shows "getUserExpenses w userId
           (case startDate of None \<Rightarrow> defaultStart w | Some d \<Rightarrow> d)
           (case endDate of None \<Rightarrow> defaultEnd w | Some d \<Rightarrow> d) = Inl err \<or>
         getUserCategories w userId = Inl err \<or>
         getUserInfo w userId = Inl err \<or>
         analyzeSpendingTrends w userId
           (case startDate of None \<Rightarrow> defaultStart w | Some d \<Rightarrow> d)
           (case endDate of None \<Rightarrow> defaultEnd w | Some d \<Rightarrow> d) = Inl err \<or>
         (\<exists>categories. getUserCategories w userId = Inr categories \<and>
            analyzeCategorySpending w userId categories
              (case startDate of None \<Rightarrow> defaultStart w | Some d \<Rightarrow> d)
              (case endDate of None \<Rightarrow> defaultEnd w | Some d \<Rightarrow> d) = Inl err) \<or>
         (getUserInfo w userId = Inr None \<and> err = TypeError)"
proof -
  let ?sd = "case startDate of None \<Rightarrow> defaultStart w | Some d \<Rightarrow> d"
  let ?ed = "case endDate of None \<Rightarrow> defaultEnd w | Some d \<Rightarrow> d"
  show ?thesis
  proof (cases "getUserExpenses w userId ?sd ?ed")
    case (Inl e1)
    with run have "err = pickRejection w e1
        (rejection (getUserCategories w userId) @ rejection (getUserInfo w userId))"
      by (simp add: generateInsights_def Let_def)
    with pickRejection_cases[of w e1
        "rejection (getUserCategories w userId) @ rejection (getUserInfo w userId)"]
    have "err = e1 \<or> err \<in> set (rejection (getUserCategories w userId))
            \<or> err \<in> set (rejection (getUserInfo w userId))"
      by auto
    with Inl show ?thesis by (auto dest: rejection_mem)
  next
    case es: (Inr es)
    show ?thesis
    proof (cases "getUserCategories w userId")
      case (Inl e2)
      with run es have "err = pickRejection w e2 (rejection (getUserInfo w userId))"
        by (simp add: generateInsights_def Let_def)
      with pickRejection_cases[of w e2 "rejection (getUserInfo w userId)"]
      have "err = e2 \<or> err \<in> set (rejection (getUserInfo w userId))"
        by auto
      with Inl show ?thesis by (auto dest: rejection_mem)
    next
      case cs: (Inr cs)
      with run es show ?thesis
        by (auto simp: generateInsights_def Let_def split: sum.splits option.splits)
    qed
  qed
qed

lemma generateInsights_bundle:
  "getUserExpenses w userId
      (case startDate of None \<Rightarrow> defaultStart w | Some d \<Rightarrow> d)
      (case endDate of None \<Rightarrow> defaultEnd w | Some d \<Rightarrow> d) = Inr es \<Longrightarrow>
   getUserCategories w userId = Inr cs \<Longrightarrow>
   getUserInfo w userId = Inr (Some u) \<Longrightarrow>
   analyzeSpendingTrends w userId
      (case startDate of None \<Rightarrow> defaultStart w | Some d \<Rightarrow> d)
      (case endDate of None \<Rightarrow> defaultEnd w | Some d \<Rightarrow> d) = Inr sp \<Longrightarrow>
   analyzeCategorySpending w userId cs
      (case startDate of None \<Rightarrow> defaultStart w | Some d \<Rightarrow> d)
      (case endDate of None \<Rightarrow> defaultEnd w | Some d \<Rightarrow> d) = Inr al \<Longrightarrow>
   generateInsights w userId startDate endDate =
     Inr \<lparr> nudges = take 5 (prioritizeNudges
               (generateAllNudges w 0 userId es cs (Some u)
                  (case startDate of None \<Rightarrow> defaultStart w | Some d \<Rightarrow> d)
                  (case endDate of None \<Rightarrow> defaultEnd w | Some d \<Rightarrow> d))),
           insights = \<lparr> spendingPatterns = sp, categoryAlerts = al,
                        streakInfo = user_streak u \<rparr>,
           period = (case startDate of None \<Rightarrow> defaultStart w | Some d \<Rightarrow> d,
                     case endDate of None \<Rightarrow> defaultEnd w | Some d \<Rightarrow> d) \<rparr>"
  by (simp add: generateInsights_def Let_def)

lemma generateAllNudges_budget_error:
  "detectWeekendSpending w k userId expenses = (r, k1) \<Longrightarrow>
   detectBudgetOverspend w k1 userId categories sd ed = Inl err \<Longrightarrow>
   generateAllNudges w k userId expenses categories usr sd ed = pushIf [] r"
  by (simp add: generateAllNudges_def)

lemma generateAllNudges_trend_error:
  "detectWeekendSpending w k userId expenses = (r, k1) \<Longrightarrow>
   detectBudgetOverspend w k1 userId categories sd ed = Inr (bn, k2) \<Longrightarrow>
   analyzeSpendingTrendsForNudge w k2 userId sd ed = Inl err \<Longrightarrow>
   generateAllNudges w k userId expenses categories usr sd ed = pushIf [] r @ bn"
  by (simp add: generateAllNudges_def)

lemma generateAllNudges_motivation_error:
  "detectWeekendSpending w k userId expenses = (r, k1) \<Longrightarrow>
   detectBudgetOverspend w k1 userId categories sd ed = Inr (bn, k2) \<Longrightarrow>
   analyzeSpendingTrendsForNudge w k2 userId sd ed = Inr (tn, k3) \<Longrightarrow>
   generateMotivationalNudges w k3 usr = Inl err \<Longrightarrow>
   generateAllNudges w k userId expenses categories usr sd ed = pushIf (pushIf [] r @ bn) tn"
  by (simp add: generateAllNudges_def)

lemma generateAllNudges_pattern_error:
  "detectWeekendSpending w k userId expenses = (r, k1) \<Longrightarrow>
   detectBudgetOverspend w k1 userId categories sd ed = Inr (bn, k2) \<Longrightarrow>
   analyzeSpendingTrendsForNudge w k2 userId sd ed = Inr (tn, k3) \<Longrightarrow>
   generateMotivationalNudges w k3 usr = Inr (mn, k4) \<Longrightarrow>
   detectCategoryPatterns w k4 userId expenses categories = Inl err \<Longrightarrow>
   generateAllNudges w k userId expenses categories usr sd ed
     = pushIf (pushIf [] r @ bn) tn @ mn"
  by (simp add: generateAllNudges_def)

lemma generateAllNudges_complete:
  "detectWeekendSpending w k userId expenses = (r, k1) \<Longrightarrow>
   detectBudgetOverspend w k1 userId categories sd ed = Inr (bn, k2) \<Longrightarrow>
   analyzeSpendingTrendsForNudge w k2 userId sd ed = Inr (tn, k3) \<Longrightarrow>
   generateMotivationalNudges w k3 usr = Inr (mn, k4) \<Longrightarrow>
   detectCategoryPatterns w k4 userId expenses categories = Inr (pn, k5) \<Longrightarrow>
   generateAllNudges w k userId expenses categories usr sd ed
     = pushIf (pushIf [] r @ bn) tn @ mn @ pn @ detectSavingsMilestones userId"
  by (simp add: generateAllNudges_def)

text \<open>
  C8 (as amended). \<open>generateInsights\<close> returns nothing and passes an error on exactly
  when one of the three reads of the data gather is rejected, the user is not found, or
  one of the two aggregator calls is rejected; the error the caller sees is the error
  of one of these. When all of them succeed, it returns the bundle whose nudge list is
  the first 5 of the prioritized list of \<open>generateAllNudges\<close>, whatever happened inside
  the rule evaluators. An error raised inside a rule evaluator does not reach the
  caller: \<open>generateAllNudges\<close> keeps the nudges of the evaluators that ran before the
  failing one and drops the output of the failing evaluator and of all later ones. Only
  when no evaluator fails is the list the concatenation of the outputs of all
  evaluators.
\<close>

theorem insights_error_handling:
  "(let sd = (case startDate of None \<Rightarrow> defaultStart w | Some d \<Rightarrow> d);
        ed = (case endDate of None \<Rightarrow> defaultEnd w | Some d \<Rightarrow> d)
    in isl (generateInsights w userId startDate endDate) =
         (isl (getUserExpenses w userId sd ed) \<or> isl (getUserCategories w userId) \<or>
          isl (getUserInfo w userId) \<or> getUserInfo w userId = Inr None \<or>
          isl (analyzeSpendingTrends w userId sd ed) \<or>
          (\<exists>categories. getUserCategories w userId = Inr categories \<and>
              isl (analyzeCategorySpending w userId categories sd ed))) \<and>
       (generateInsights w userId startDate endDate = Inl err \<longrightarrow>
          getUserExpenses w userId sd ed = Inl err \<or>
          getUserCategories w userId = Inl err \<or>
          getUserInfo w userId = Inl err \<or>
          analyzeSpendingTrends w userId sd ed = Inl err \<or>
          (\<exists>categories. getUserCategories w userId = Inr categories \<and>
             analyzeCategorySpending w userId categories sd ed = Inl err) \<or>
          (getUserInfo w userId = Inr None \<and> err = TypeError)) \<and>
       (getUserExpenses w userId sd ed = Inr es \<and>
        getUserCategories w userId = Inr cs \<and>
        getUserInfo w userId = Inr (Some u) \<and>
        analyzeSpendingTrends w userId sd ed = Inr sp \<and>
        analyzeCategorySpending w userId cs sd ed = Inr al \<longrightarrow>
          generateInsights w userId startDate endDate =
            Inr \<lparr> nudges = take 5 (prioritizeNudges
                      (generateAllNudges w 0 userId es cs (Some u) sd ed)),
                  insights = \<lparr> spendingPatterns = sp, categoryAlerts = al,
                               streakInfo = user_streak u \<rparr>,
                  period = (sd, ed) \<rparr>)) \<and>
   (detectWeekendSpending w k userId expenses = (r, k1) \<longrightarrow>
      (detectBudgetOverspend w k1 userId cats s e = Inl err' \<longrightarrow>
         generateAllNudges w k userId expenses cats usr s e = pushIf [] r) \<and>
      (detectBudgetOverspend w k1 userId cats s e = Inr (bn, k2) \<longrightarrow>
         (analyzeSpendingTrendsForNudge w k2 userId s e = Inl err' \<longrightarrow>
            generateAllNudges w k userId expenses cats usr s e = pushIf [] r @ bn) \<and>
         (analyzeSpendingTrendsForNudge w k2 userId s e = Inr (tn, k3) \<longrightarrow>
            (generateMotivationalNudges w k3 usr = Inl err' \<longrightarrow>
               generateAllNudges w k userId expenses cats usr s e
                 = pushIf (pushIf [] r @ bn) tn) \<and>
            (generateMotivationalNudges w k3 usr = Inr (mn, k4) \<longrightarrow>
               (detectCategoryPatterns w k4 userId expenses cats = Inl err' \<longrightarrow>
                  generateAllNudges w k userId expenses cats usr s e
                    = pushIf (pushIf [] r @ bn) tn @ mn) \<and>
               (detectCategoryPatterns w k4 userId expenses cats = Inr (pn, k5) \<longrightarrow>
                  generateAllNudges w k userId expenses cats usr s e
                    = pushIf (pushIf [] r @ bn) tn @ mn @ pn
                        @ detectSavingsMilestones userId)))))"
  unfolding Let_def
  apply (intro conjI impI)
         apply (rule generateInsights_isl[unfolded Let_def])
        apply (erule generateInsights_error)
       apply (elim conjE)
       apply (erule (4) generateInsights_bundle)
      apply (erule (1) generateAllNudges_budget_error)
     apply (erule (2) generateAllNudges_trend_error)
    apply (erule (3) generateAllNudges_motivation_error)
   apply (erule (4) generateAllNudges_pattern_error)
  apply (erule (4) generateAllNudges_complete)
  done

theorem insights_error_handling_witness:
  "detectBudgetOverspend failingWorld (Suc 0) ''u1'' [catFood, catTransport, catGifts]
      1697328000000 1700006399999 = Inl StoreError \<and>
   generateAllNudges failingWorld 0 ''u1'' giftExpenses [catFood, catTransport, catGifts]
       (Some user77) 1697328000000 1700006399999
     = [weekendNudge 1700000000000 100 1000 10] \<and>
   \<not> isl (generateInsights failingWorld ''u1'' None None) \<and>
   nudges (projr (generateInsights failingWorld ''u1'' None None))
     = [weekendNudge 1700000000000 100 1000 10]"
proof -
  note th = insights_error_handling [where w = failingWorld and startDate = None
      and endDate = None and userId = "''u1''" and err = StoreError and err' = StoreError
      and k = 0
      and expenses = giftExpenses and r = "Some (weekendNudge 1700000000000 100 1000 10)"
      and ?k1.0 = "Suc 0" and cats = "[catFood, catTransport, catGifts]"
      and s = 1697328000000 and e = 1700006399999 and usr = "Some user77"
      and es = giftExpenses and cs = "[catFood, catTransport, catGifts]" and u = user77
      and sp = "\<lparr> isIncreasing = True, trend = ''up'', changePercentage = 20,
                  currentPeriod = 1200, previousPeriod = 1000 \<rparr>"
      and al = "[\<lparr> alert_categoryId = ''c1'', alert_name = ''Food'', alert_spent = 5100,
                   alert_budget = 5000, alert_percentage = 102, overBudget = True \<rparr>,
                \<lparr> alert_categoryId = ''c2'', alert_name = ''Transport'', alert_spent = 2550,
                   alert_budget = 3000, alert_percentage = 85, overBudget = False \<rparr>]"]
  have reads: "getUserExpenses failingWorld ''u1'' 1697328000000 1700006399999 = Inr giftExpenses"
    "getUserInfo failingWorld ''u1'' = Inr (Some user77)"
    by (simp_all add: getUserExpenses_def getUserInfo_def failingWorld_fields)
  from th have all: "generateAllNudges failingWorld 0 ''u1'' giftExpenses
       [catFood, catTransport, catGifts] (Some user77) 1697328000000 1700006399999
     = pushIf [] (Some (weekendNudge 1700000000000 100 1000 10))"
    using failing_weekend failing_budget by (simp add: Let_def)
  then have all': "generateAllNudges failingWorld 0 ''u1'' giftExpenses
       [catFood, catTransport, catGifts] (Some user77) 1697328000000 1700006399999
     = [weekendNudge 1700000000000 100 1000 10]"
    by (simp add: pushIf_def)
  from th have "generateInsights failingWorld ''u1'' None None =
      Inr \<lparr> nudges = take 5 (prioritizeNudges
                (generateAllNudges failingWorld 0 ''u1'' giftExpenses
                   [catFood, catTransport, catGifts] (Some user77) 1697328000000 1700006399999)),
            insights = \<lparr> spendingPatterns =
                            \<lparr> isIncreasing = True, trend = ''up'', changePercentage = 20,
                              currentPeriod = 1200, previousPeriod = 1000 \<rparr>,
                         categoryAlerts =
                            [\<lparr> alert_categoryId = ''c1'', alert_name = ''Food'', alert_spent = 5100,
                   alert_budget = 5000, alert_percentage = 102, overBudget = True \<rparr>,
                \<lparr> alert_categoryId = ''c2'', alert_name = ''Transport'', alert_spent = 2550,
                   alert_budget = 3000, alert_percentage = 85, overBudget = False \<rparr>],
                         streakInfo = user_streak user77 \<rparr>,
            period = (1697328000000, 1700006399999) \<rparr>"
    using reads failing_categories failing_trends failing_alerts
    by (simp add: Let_def failingWorld_fields)
  then have b: "\<not> isl (generateInsights failingWorld ''u1'' None None)"
    and n: "nudges (projr (generateInsights failingWorld ''u1'' None None))
      = [weekendNudge 1700000000000 100 1000 10]"
    by (simp_all add: all' single_sorted)
  from failing_budget all' b n show ?thesis by (intro conjI)
qed

text \<open>
  Against C8 as stated: when the store rejects the budget detector's query,
  \<open>generateInsights\<close> still returns a bundle; its nudge list holds the weekend nudge only
  and lacks the two nudges that the streak detector builds for this user.
\<close>

theorem insights_error_handling_counterexample:
  "detectBudgetOverspend failingWorld (Suc 0) ''u1'' [catFood, catTransport, catGifts]
      1697328000000 1700006399999 = Inl StoreError \<and>
   generateMotivationalNudges failingWorld (Suc 0) (Some user77)
     = Inr ([streak7Nudge 1700000000001 7, personalBestNudge 1700000000002 7], 3) \<and>
   generateInsights failingWorld ''u1'' None None
     = Inr \<lparr> nudges = [weekendNudge 1700000000000 100 1000 10],
             insights =
               \<lparr> spendingPatterns =
                   \<lparr> isIncreasing = True, trend = ''up'', changePercentage = 20,
                     currentPeriod = 1200, previousPeriod = 1000 \<rparr>,
                 categoryAlerts =
                   [\<lparr> alert_categoryId = ''c1'', alert_name = ''Food'', alert_spent = 5100,
                       alert_budget = 5000, alert_percentage = 102, overBudget = True \<rparr>,
                    \<lparr> alert_categoryId = ''c2'', alert_name = ''Transport'', alert_spent = 2550,
                       alert_budget = 3000, alert_percentage = 85, overBudget = False \<rparr>],
                 streakInfo = user_streak user77 \<rparr>,
             period = (1697328000000, 1700006399999) \<rparr>"
  by (intro conjI failing_budget failing_motivation failing_insights)

subsection \<open>Weekend detector\<close>

lemma sumAmounts_foldl: "foldl (\<lambda>sum e. sum + amount e) a es = a + sum_list (map amount es)"
  by (induction es arbitrary: a) simp_all

lemma sumAmounts_sum_list: "sumAmounts es = sum_list (map amount es)"
  by (simp add: sumAmounts_def sumAmounts_foldl)

lemma sum_list_pos_amounts:
  "es \<noteq> [] \<Longrightarrow> \<forall>e\<in>set es. amount e > 0 \<Longrightarrow> sum_list (map amount es) > 0"
proof (induction es)
  case Nil
  then show ?case by simp
next
  case (Cons a es)
  show ?case
  proof (cases "es = []")
    case True
    with Cons.prems show ?thesis by simp
  next
    case False
    with Cons have "sum_list (map amount es) > 0" by simp
    moreover have "amount a > 0" using Cons.prems by simp
    ultimately show ?thesis by simp
  qed
qed

lemma moment_day_range: "0 \<le> moment_day w d \<and> moment_day w d \<le> 6"
  by (simp add: moment_day_def)

lemma isWeekday_not_weekend: "isWeekday w e = (\<not> isWeekend w e)"
  using moment_day_range[of w "date e"] by (auto simp: isWeekday_def isWeekend_def)

lemma round_scaled:
  fixes y p :: real
  assumes "p > 0"
  shows "\<bar>of_int \<lfloor>y * p + 1 / 2\<rfloor> / p - y\<bar> \<le> 1 / (2 * p)"
proof -
  define n :: real where "n = of_int \<lfloor>y * p + 1 / 2\<rfloor>"
  have a: "\<bar>n - y * p\<bar> \<le> 1 / 2" unfolding n_def by linarith
  have "n / p - y = (n - y * p) / p" using assms by (simp add: field_simps)
  then have "\<bar>n / p - y\<bar> = \<bar>n - y * p\<bar> / p" using assms by simp
  also have "\<dots> \<le> (1 / 2) / p" using divide_right_mono[OF a, of p] assms by simp
  finally show ?thesis unfolding n_def by simp
qed

lemma toFixed_nearest:
  "\<bar>toFixed d x - x\<bar> \<le> 1 / (2 * 10 ^ d) \<and> (\<exists>n::int. toFixed d x = of_int n / 10 ^ d)"
proof (cases "x < 0")
  case True
  have t: "toFixed d x = - (of_int \<lfloor>- x * 10 ^ d + 1 / 2\<rfloor> / 10 ^ d)"
    using True by (simp add: toFixed_def)
  have "\<bar>of_int \<lfloor>(- x) * 10 ^ d + 1 / 2\<rfloor> / 10 ^ d - (- x)\<bar> \<le> 1 / (2 * 10 ^ d)"
    by (rule round_scaled) simp
  then have "\<bar>toFixed d x - x\<bar> \<le> 1 / (2 * 10 ^ d)"
    unfolding t by (simp add: abs_if split: if_splits)
  moreover have "toFixed d x = of_int (- \<lfloor>- x * 10 ^ d + 1 / 2\<rfloor>) / 10 ^ d"
    unfolding t by simp
  ultimately show ?thesis by blast
next
  case False
  have t: "toFixed d x = of_int \<lfloor>x * 10 ^ d + 1 / 2\<rfloor> / 10 ^ d"
    using False by (simp add: toFixed_def)
  have "\<bar>of_int \<lfloor>x * 10 ^ d + 1 / 2\<rfloor> / 10 ^ d - x\<bar> \<le> 1 / (2 * 10 ^ d)"
    by (rule round_scaled) simp
  with t show ?thesis by auto
qed

text \<open>
  C4. For every list of expenses with positive amounts: the weekend partition holds the
  expenses whose local day of the week is Saturday (6) or Sunday (0), the weekday
  partition all the others. The weekend detector emits nothing when one of the two is
  empty; otherwise, with \<open>ratio = weekendAvg / weekdayAvg\<close> of the two mean amounts, it
  emits one weekend nudge iff \<open>ratio > 1.8\<close> and nothing when \<open>ratio \<le> 1.8\<close>. The nudge
  has priority high if \<open>ratio > 2.5\<close> and medium otherwise, is actionable, and carries
  \<open>ratio\<close>, \<open>weekendAvg\<close> and \<open>weekdayAvg\<close> rounded to two decimals.
\<close>

theorem weekend_detector:
  assumes pos: "\<forall>e\<in>set expenses. amount e > 0"
  shows "(let weekendExpenses = filter (\<lambda>e. moment_day w (date e) = 6 \<or> moment_day w (date e) = 0) expenses;
              weekdayExpenses = filter (\<lambda>e. \<not> (moment_day w (date e) = 6 \<or> moment_day w (date e) = 0)) expenses;
              weekendAvg = sum_list (map amount weekendExpenses) / real (length weekendExpenses);
              weekdayAvg = sum_list (map amount weekdayExpenses) / real (length weekdayExpenses);
              ratio = weekendAvg / weekdayAvg
          in detectWeekendSpending w k userId expenses =
               (if weekendExpenses = [] \<or> weekdayExpenses = [] then (None, k)
                else if ratio > 1.8
                then (Some (weekendNudge (dateNow w k) ratio weekendAvg weekdayAvg), Suc k)
                else (None, k)) \<and>
             (weekdayExpenses = [] \<or> weekdayAvg > 0)) \<and>
         nudgeSummary (weekendNudge t r a b)
           = (''weekend_spending'', WEEKEND_SPENDING, (if r > 2.5 then HIGH else MEDIUM), True) \<and>
         metadata (weekendNudge t r a b)
           = [(''ratio'', Num (toFixed 2 r)), (''weekendAvg'', Num (toFixed 2 a)),
              (''weekdayAvg'', Num (toFixed 2 b))] \<and>
         \<bar>toFixed 2 x - x\<bar> \<le> 1 / 200 \<and> (\<exists>n::int. toFixed 2 x = of_int n / 100)"
proof -
  define WD where
    "WD = filter (\<lambda>e. \<not> (moment_day w (date e) = 6 \<or> moment_day w (date e) = 0)) expenses"
  define WE where
    "WE = filter (\<lambda>e. moment_day w (date e) = 6 \<or> moment_day w (date e) = 0) expenses"
  have wd: "filter (isWeekday w) expenses = WD"
    unfolding WD_def
    by (rule filter_cong) (auto simp: isWeekday_not_weekend isWeekend_def)
  have we: "filter (isWeekend w) expenses = WE"
    unfolding WE_def
    by (rule filter_cong) (auto simp: isWeekend_def)
  have posavg: "WD = [] \<or> sum_list (map amount WD) / real (length WD) > 0"
  proof (cases "WD = []")
    case True
    then show ?thesis by simp
  next
    case False
    moreover have "\<forall>e\<in>set WD. amount e > 0"
      using pos by (simp add: WD_def)
    ultimately have "sum_list (map amount WD) > 0"
      by (rule sum_list_pos_amounts)
    with False show ?thesis by simp
  qed
  have run: "detectWeekendSpending w k userId expenses =
      (if WE = [] \<or> WD = [] then (None, k)
       else if sum_list (map amount WE) / real (length WE)
                 / (sum_list (map amount WD) / real (length WD)) > 1.8
       then (Some (weekendNudge (dateNow w k)
                     (sum_list (map amount WE) / real (length WE)
                        / (sum_list (map amount WD) / real (length WD)))
                     (sum_list (map amount WE) / real (length WE))
                     (sum_list (map amount WD) / real (length WD))), Suc k)
       else (None, k))"
    unfolding detectWeekendSpending_def Let_def wd we sumAmounts_sum_list length_0_conv
    by (rule refl)
  have s1: "nudgeSummary (weekendNudge t r a b)
           = (''weekend_spending'', WEEKEND_SPENDING, (if r > 2.5 then HIGH else MEDIUM), True)"
    by (simp add: nudgeSummary_def weekendNudge_def)
  have s2: "metadata (weekendNudge t r a b)
           = [(''ratio'', Num (toFixed 2 r)), (''weekendAvg'', Num (toFixed 2 a)),
              (''weekdayAvg'', Num (toFixed 2 b))]"
    by (simp add: weekendNudge_def)
  have r1: "\<bar>toFixed 2 x - x\<bar> \<le> 1 / 200"
    using toFixed_nearest[of 2 x] by simp
  have r2: "\<exists>n::int. toFixed 2 x = of_int n / 100"
    using toFixed_nearest[of 2 x] by simp
  show ?thesis
    unfolding Let_def WD_def[symmetric] WE_def[symmetric]
    by (intro conjI run posavg s1 s2 r1 r2)
qed

theorem weekend_detector_witness:
  "detectWeekendSpending busyWorld 0 ''u1'' giftExpenses
     = (Some (weekendNudge 1700000000000 100 1000 10), Suc 0) \<and>
   nudgeSummary (weekendNudge 1700000000000 100 1000 10)
     = (''weekend_spending'', WEEKEND_SPENDING, HIGH, True)"
proof -
  have pos: "\<forall>e\<in>set giftExpenses. amount e > 0"
    by (simp add: giftExpenses_def)
  note th = weekend_detector [OF pos, where w = busyWorld and k = 0 and userId = "''u1''"
      and t = 1700000000000 and r = 100 and a = 1000 and b = 10 and x = 0]
  have days: "moment_day busyWorld 1699700000000 = 6"
    "moment_day busyWorld 1699833600000 = 1" "moment_day busyWorld 1699920000000 = 2"
    by (simp_all add: moment_day_def msPerDay_def busyWorld_fields)
  from th show ?thesis
    by (simp add: Let_def giftExpenses_def days busyWorld_fields)
qed

subsection \<open>Category-pattern detector\<close>















lemma gift_keys:
  "categoryKey busyWorld \<lparr> amount = a, date = d, categoryId = Some giftsPopulated \<rparr>
     = Some (inspectText giftsPopulated)"
  by (simp add: categoryKey_def busyWorld_fields)




end
